theory Spec2Isabelle
  imports Main "HOL-Library.Signed_Division"
begin

section \<open>Go strings and formatting\<close>

text \<open>
  A Go \<open>string\<close> is a byte sequence, modelled as \<open>string\<close> (a \<open>char list\<close>);
  \<open>len(s)\<close> is \<open>length s\<close>.
\<close>

text \<open>\<open>fmt.Sprintf("%d", n)\<close>: the decimal digits of an integer, with a leading minus sign.\<close>

definition digit :: "nat \<Rightarrow> char" where
  "digit n = ''0123456789'' ! n"

function showNat :: "nat \<Rightarrow> string" where
  "showNat n = (if n < 10 then [digit n] else showNat (n div 10) @ [digit (n mod 10)])"
  by pat_completeness auto
termination
  by (relation "measure (\<lambda>n. n)") auto

declare showNat.simps [simp del]

definition showInt :: "int \<Rightarrow> string" where
  "showInt i = (if i < 0 then CHR ''-'' # showNat (nat (- i)) else showNat (nat i))"

text \<open>\<open>strings.HasPrefix\<close>, \<open>strings.HasSuffix\<close> and \<open>strings.Contains\<close>.\<close>

definition hasPrefix :: "string \<Rightarrow> string \<Rightarrow> bool" where
  "hasPrefix s p = (take (length p) s = p)"

definition hasSuffix :: "string \<Rightarrow> string \<Rightarrow> bool" where
  "hasSuffix s suf = (length suf \<le> length s \<and> drop (length s - length suf) s = suf)"

fun contains :: "string \<Rightarrow> string \<Rightarrow> bool" where
  "contains [] sub = (sub = [])"
| "contains (c # cs) sub = (hasPrefix (c # cs) sub \<or> contains cs sub)"

text \<open>
  \<open>strings.ToLower\<close> on ASCII text: the letters \<open>A\<close> to \<open>Z\<close> become \<open>a\<close> to \<open>z\<close>, every
  other byte is kept. (On text that is not ASCII, Go also lower-cases the other Unicode
  letters; paths and template names are taken to be ASCII here.)
\<close>

definition toLowerChar :: "char \<Rightarrow> char" where
  "toLowerChar c =
     (case map_of (zip ''ABCDEFGHIJKLMNOPQRSTUVWXYZ'' ''abcdefghijklmnopqrstuvwxyz'') c of
        Some d \<Rightarrow> d
      | None \<Rightarrow> c)"

definition toLower :: "string \<Rightarrow> string" where
  "toLower s = map toLowerChar s"

text \<open>\<open>strings.Replace(s, "\\", "/", -1)\<close>: every backslash becomes a forward slash.\<close>

definition backslash :: char where
  "backslash = CHR 0x5C"

definition replaceBackslash :: "string \<Rightarrow> string" where
  "replaceBackslash s = map (\<lambda>c. if c = backslash then CHR ''/'' else c) s"

text \<open>
  The normalisation of \<open>newTemplateManager\<close> and of the walk in \<open>loadTemplates\<close>:
  \<open>strings.Replace(strings.ToLower(path), "\\", "/", -1)\<close>.
\<close>

definition normPath :: "string \<Rightarrow> string" where
  "normPath path = replaceBackslash (toLower path)"

section \<open>The template helper functions\<close>

subsection \<open>\<open>since\<close>\<close>

text \<open>
  The helper \<open>since\<close> of the function map. Its first statement,
  \<open>seconds := int(time.Since(t).Seconds())\<close>, reads the clock and truncates the elapsed
  time to whole seconds; the model starts from that integer. Go's \<open>/\<close> on integers
  truncates towards zero (\<open>sdiv\<close>).
\<close>

definition since :: "int \<Rightarrow> string" where
  "since seconds =
     (if seconds < 60 then ''< 1 minute ago''
      else if seconds < 60 * 2 then ''1 minute ago''
      else if seconds < 60 * 60 then showInt (seconds sdiv 60) @ '' minutes ago''
      else if seconds < 60 * 60 * 2 then ''1 hour ago''
      else if seconds < 60 * 60 * 24 then showInt (seconds sdiv (60 * 60)) @ '' hours ago''
      else if seconds < 60 * 60 * 24 * 2 then ''1 day ago''
      else if seconds < 60 * 60 * 24 * 30 then showInt (seconds sdiv (60 * 60 * 24)) @ '' days ago''
      else if seconds < 60 * 60 * 24 * 30 * 2 then ''1 month ago''
      else if seconds < 60 * 60 * 24 * 30 * 12
        then showInt (seconds sdiv (60 * 60 * 24 * 30)) @ '' months ago''
      else ''> 1 year ago'')"

subsection \<open>\<open>paginate\<close>\<close>

text \<open>
  An apostrophe next to the end of a string literal is written \<open>sq\<close>.
\<close>

definition sq :: string where
  "sq = [CHR 0x27]"

text \<open>
  The loop \<open>for i := curPage - offset; i < curPage+offset+1; i++\<close> of \<open>paginate\<close>, with
  the string built so far as accumulator. In the format strings \<open>%s\<close> is the url and
  \<open>%d\<close>, \<open>%[2]d\<close> the page number. Go's \<open>int\<close> has 64 bits; the integers here
  are unbounded, which is the same as long as the sums and differences of the page
  numbers stay in that range.
\<close>

function pageLoop :: "int \<Rightarrow> int \<Rightarrow> int \<Rightarrow> string \<Rightarrow> int \<Rightarrow> string \<Rightarrow> string" where
  "pageLoop curPage nPages offset url i result =
     (if i < curPage + offset + 1 then
        pageLoop curPage nPages offset url (i + 1)
          (if i > 0 \<and> i \<le> nPages then
             (if i = curPage then
                result @ ''<li class='active'><a href='' @ sq @ url @ ''/page/'' @ showInt i
                  @ sq @ ''>'' @ showInt i @ ''</a></li>''
              else
                result @ ''<li><a href='' @ sq @ url @ ''/page/'' @ showInt i
                  @ sq @ ''>'' @ showInt i @ ''</a></li>'')
           else result)
      else result)"
  by pat_completeness auto
termination
  by (relation "measure (\<lambda>(curPage, nPages, offset, url, i, result). nat (curPage + offset + 1 - i))")
    auto

declare pageLoop.simps [simp del]

definition paginate :: "int \<Rightarrow> int \<Rightarrow> int \<Rightarrow> string \<Rightarrow> string" where
  "paginate curPage nPages offset url =
     (if nPages < 2 then ''''
      else
        let result = ''<ul class='pagination'>'';
            result = (if curPage > 1 then
                        result @ ''<li><a href='' @ sq @ url @ ''/page/first'>&laquo;First</a></li>''
                          @ ''<li><a href='' @ sq @ url @ ''/page/'' @ showInt (curPage - 1)
                          @ sq @ ''>&laquo;</a></li>''
                      else result);
            result = (if curPage - offset > 1 then result @ ''<li><span>...</span></li>''
                      else result);
            result = pageLoop curPage nPages offset url (curPage - offset) result;
            result = (if curPage + offset < nPages then result @ ''<li><span>...</span></li>''
                      else result);
            result = (if curPage \<noteq> nPages then
                        result @ ''<li><a href='' @ sq @ url @ ''/page/'' @ showInt (curPage + 1)
                          @ sq @ ''>&raquo;</a></li>''
                          @ ''<li><a href='' @ sq @ url @ ''/page/last'>Last&raquo;</a></li>''
                      else result)
        in result @ ''</ul>'')"

section \<open>Outcomes\<close>

text \<open>
  A call either panics (a nil dereference, a store into a nil map, a failed type
  assertion) or returns.
\<close>

datatype 'a outcome = Panic | Return 'a

section \<open>The hook registry\<close>

datatype hookError = ErrHookDuplicateID | ErrHookUnknownID | ErrHookInvalidHandler

text \<open>
  The three sentinel errors: \<open>"id already in use"\<close>, \<open>"unknown hook Id"\<close> and
  \<open>"handler is not a function"\<close>.
\<close>

text \<open>
  The registry stores \<open>reflect.Type\<close> values and handlers of type \<open>interface{}\<close>. Both
  are type parameters here (\<open>'ty\<close> and \<open>'h\<close>), and the three operations of package
  \<open>reflect\<close> that the registry calls are taken as given:
  \<open>TypeOf\<close> is \<open>None\<close> for the nil interface value, which has no dynamic type.
\<close>

record ('ty, 'h) reflection =
  TypeOf :: "'h \<Rightarrow> 'ty option"
  AssignableTo :: "'ty \<Rightarrow> 'ty \<Rightarrow> bool"
  KindIsFunc :: "'ty \<Rightarrow> bool"

record ('ty, 'h) hook =
  signiture :: 'ty
  handler :: "'h list"

text \<open>
  \<open>list\<close> is a \<open>map[int]*hook\<close>. A nil map and an empty map read alike, and
  \<open>registerHook\<close> allocates the map before its first store, so both are the empty map.
\<close>

record ('ty, 'h) hooks =
  list :: "int \<rightharpoonup> ('ty, 'h) hook"

definition registerHook ::
  "('ty, 'h) reflection \<Rightarrow> ('ty, 'h, 'z) hooks_scheme \<Rightarrow> int \<Rightarrow> 'ty
    \<Rightarrow> ('ty, 'h, 'z) hooks_scheme \<times> hookError option" where
  "registerHook rf h hookID sig =
     (case list h hookID of
        Some _ \<Rightarrow> (h, Some ErrHookDuplicateID)
      | None \<Rightarrow>
          if \<not> KindIsFunc rf sig then (h, Some ErrHookInvalidHandler)
          else (h\<lparr>list := (list h)(hookID \<mapsto> \<lparr>signiture = sig, handler = []\<rparr>)\<rparr>, None))"

text \<open>\<open>getHooks\<close> returns a nil slice for an unknown id; a nil slice is the empty list.\<close>

definition getHooks :: "('ty, 'h, 'z) hooks_scheme \<Rightarrow> int \<Rightarrow> 'h list" where
  "getHooks h hookID =
     (case list h hookID of
        None \<Rightarrow> []
      | Some hk \<Rightarrow> handler hk)"

text \<open>
  \<open>AddHook\<close>. With a nil handler \<open>reflect.TypeOf(handler)\<close> is the nil \<open>Type\<close>, and the
  call of \<open>AssignableTo\<close> on it panics. The hook is held by pointer, so the append
  updates the entry of the map.
\<close>

definition AddHook ::
  "('ty, 'h) reflection \<Rightarrow> ('ty, 'h, 'z) hooks_scheme \<Rightarrow> int \<Rightarrow> 'h
    \<Rightarrow> (('ty, 'h, 'z) hooks_scheme \<times> hookError option) outcome" where
  "AddHook rf h hookID hnd =
     (case list h hookID of
        None \<Rightarrow> Return (h, Some ErrHookUnknownID)
      | Some hk \<Rightarrow>
          (case TypeOf rf hnd of
             None \<Rightarrow> Panic
           | Some t \<Rightarrow>
               if \<not> AssignableTo rf t (signiture hk) then Return (h, Some ErrHookInvalidHandler)
               else Return (h\<lparr>list := (list h)(hookID \<mapsto> hk\<lparr>handler := handler hk @ [hnd]\<rparr>)\<rparr>,
                            None)))"

text \<open>
  A sequence of attachments, each of which has to succeed: the registry after the last
  one, or \<open>None\<close> when one of them panics or returns an error.
\<close>

fun attachAll ::
  "('ty, 'h) reflection \<Rightarrow> ('ty, 'h, 'z) hooks_scheme \<Rightarrow> (int \<times> 'h) list
    \<Rightarrow> ('ty, 'h, 'z) hooks_scheme option" where
  "attachAll rf h [] = Some h"
| "attachAll rf h ((hookID, hnd) # rest) =
     (case AddHook rf h hookID hnd of
        Return (h', None) \<Rightarrow> attachAll rf h' rest
      | _ \<Rightarrow> None)"

section \<open>Validation\<close>

text \<open>
  \<open>errors\<close> is a \<open>map[string][]string\<close>; \<open>None\<close> is the nil map, which can be read but
  not stored into.
\<close>

record Validation =
  HasErrors :: bool
  errors :: "(string \<rightharpoonup> string list) option"

text \<open>
  A \<open>ValidationResult\<close> also points back to the \<open>Validation\<close> it came from; that
  state is passed and returned explicitly here.
\<close>

record ValidationResult =
  valid :: bool
  name :: string
  index :: int

definition addValidationResult ::
  "Validation \<Rightarrow> string \<Rightarrow> bool \<Rightarrow> string \<Rightarrow> (Validation \<times> ValidationResult) outcome" where
  "addValidationResult v nm ok message =
     (if \<not> ok then
        (case errors v of
           None \<Rightarrow> Panic
         | Some m \<Rightarrow>
             let l = (case m nm of None \<Rightarrow> [] | Some l \<Rightarrow> l) @ [message]
             in Return (v\<lparr>HasErrors := True, errors := Some (m(nm \<mapsto> l))\<rparr>,
                        \<lparr>valid = ok, name = nm, index = int (length l) - 1\<rparr>))
      else Return (v, \<lparr>valid = ok, name = nm, index = - 1\<rparr>))"

text \<open>
  The validators return a \<open>*ValidationResult\<close>, which is nil on the last path:
  \<open>found\<close> wraps the pointer that \<open>addValidationResult\<close> returns.
\<close>

definition found ::
  "(Validation \<times> ValidationResult) outcome \<Rightarrow> (Validation \<times> ValidationResult option) outcome" where
  "found r = (case r of Panic \<Rightarrow> Panic | Return (v, vr) \<Rightarrow> Return (v, Some vr))"

text \<open>
  A \<open>time.Time\<close> is an instant: seconds since January 1 of year 1, 00:00:00 UTC, and
  nanoseconds. \<open>IsZero\<close> holds of that very instant.
\<close>

datatype gotime = Time int int

fun IsZero :: "gotime \<Rightarrow> bool" where
  "IsZero (Time sec nsec) = (sec = 0 \<and> nsec = 0)"

text \<open>
  The \<open>obj interface{}\<close> argument, by what the validators tell apart: the nil interface,
  a dynamic type of exactly \<open>int\<close>, \<open>string\<close> or \<open>time.Time\<close> (the type assertions), a
  value whose \<open>reflect\<close> kind is \<open>Slice\<close> (with its \<open>Len()\<close>), and any other value.
\<close>

datatype obj = ObjNil | ObjInt int | ObjString string | ObjTime gotime | ObjSlice nat | ObjOther

fun Required ::
  "Validation \<Rightarrow> string \<Rightarrow> obj \<Rightarrow> (Validation \<times> ValidationResult option) outcome" where
  "Required v nm ObjNil = found (addValidationResult v nm False ''Required'')"
| "Required v nm (ObjInt value) = found (addValidationResult v nm (value \<noteq> 0) ''Required'')"
| "Required v nm (ObjString value) =
     found (addValidationResult v nm (length value > 0) ''Required'')"
| "Required v nm (ObjTime value) = found (addValidationResult v nm (IsZero value) ''Required'')"
| "Required v nm (ObjSlice len) = found (addValidationResult v nm (len > 0) ''Required'')"
| "Required v nm ObjOther = Return (v, None)"

fun Min_v ::
  "Validation \<Rightarrow> string \<Rightarrow> obj \<Rightarrow> int \<Rightarrow> (Validation \<times> ValidationResult option) outcome" where
  "Min_v v nm ObjNil min' =
     found (addValidationResult v nm False (''Must be larger than '' @ showInt min'))"
| "Min_v v nm (ObjInt value) min' =
     found (addValidationResult v nm (value \<ge> min') (''Must be larger than '' @ showInt min'))"
| "Min_v v nm (ObjString value) min' =
     found (addValidationResult v nm (int (length value) \<ge> min')
       (''Must be larger than '' @ showInt min'))"
| "Min_v v nm (ObjSlice len) min' =
     found (addValidationResult v nm (int len \<ge> min') (''Must be larger than '' @ showInt min'))"
| "Min_v v nm _ min' = Return (v, None)"

fun Max_v ::
  "Validation \<Rightarrow> string \<Rightarrow> obj \<Rightarrow> int \<Rightarrow> (Validation \<times> ValidationResult option) outcome" where
  "Max_v v nm ObjNil max' =
     found (addValidationResult v nm False (''Must be smaller than '' @ showInt max'))"
| "Max_v v nm (ObjInt value) max' =
     found (addValidationResult v nm (value \<le> max') (''Must be smaller than '' @ showInt max'))"
| "Max_v v nm (ObjString value) max' =
     found (addValidationResult v nm (int (length value) \<le> max')
       (''Must be smaller than '' @ showInt max'))"
| "Max_v v nm (ObjSlice len) max' =
     found (addValidationResult v nm (int len \<le> max') (''Must be smaller than '' @ showInt max'))"
| "Max_v v nm _ max' = Return (v, None)"

fun MinMax ::
  "Validation \<Rightarrow> string \<Rightarrow> obj \<Rightarrow> int \<Rightarrow> int
    \<Rightarrow> (Validation \<times> ValidationResult option) outcome" where
  "MinMax v nm ObjNil min' max' =
     found (addValidationResult v nm False
       (''Must be larger '' @ showInt min' @ '' and smaller '' @ showInt max'))"
| "MinMax v nm (ObjInt value) min' max' =
     found (addValidationResult v nm (value \<ge> min' \<and> value \<le> max')
       (''Must be larger '' @ showInt min' @ '' and smaller '' @ showInt max'))"
| "MinMax v nm (ObjString value) min' max' =
     found (addValidationResult v nm (int (length value) \<ge> min' \<and> int (length value) \<le> max')
       (''Must be larger '' @ showInt min' @ '' and smaller '' @ showInt max'))"
| "MinMax v nm (ObjSlice len) min' max' =
     found (addValidationResult v nm (int len \<ge> min' \<and> int len \<le> max')
       (''Must be larger '' @ showInt min' @ '' and smaller '' @ showInt max'))"
| "MinMax v nm _ min' max' = Return (v, None)"

section \<open>The file system below the template directory\<close>

text \<open>
  A Go \<open>error\<close>. \<open>filepath.SkipDir\<close> and \<open>filepath.SkipAll\<close> are values that
  \<open>filepath.Walk\<close> compares by identity; every other error is known by its message.
\<close>

datatype error = SkipDir | SkipAll | Error string

fun errorString :: "error \<Rightarrow> string" where
  "errorString SkipDir = ''skip this directory''"
| "errorString SkipAll = ''skip everything and stop the walk''"
| "errorString (Error msg) = msg"

text \<open>
  The state of the file system is the tree at \<open>tm.directory\<close>. A node is
  \<^item> a file, with its name and content;
  \<^item> a directory, with its name and its entries in the order of the listing;
  \<^item> a directory that cannot be listed, with its name and the error of the listing;
    nothing below it can be reached;
  \<^item> an entry of which \<open>os.Lstat\<close> fails, with its name and that error.
  Names are compared byte by byte, as on a case-sensitive file system.
\<close>

datatype node =
    File string string
  | Dir string "node list"
  | DirErr string error
  | NoInfo string error

fun nodeName :: "node \<Rightarrow> string" where
  "nodeName (File n d) = n"
| "nodeName (Dir n ks) = n"
| "nodeName (DirErr n e) = n"
| "nodeName (NoInfo n e) = n"

fun findNode :: "string \<Rightarrow> node list \<Rightarrow> node option" where
  "findNode n [] = None"
| "findNode n (k # ks) = (if nodeName k = n then Some k else findNode n ks)"

text \<open>The order of the names in a directory listing: bytewise lexicographic.\<close>

fun lessStr :: "string \<Rightarrow> string \<Rightarrow> bool" where
  "lessStr [] [] = False"
| "lessStr [] (d # ds) = True"
| "lessStr (c # cs) [] = False"
| "lessStr (c # cs) (d # ds) = ((of_char c :: nat) < of_char d \<or> (c = d \<and> lessStr cs ds))"

text \<open>\<open>putNode\<close> replaces the entry of the same name, or adds the entry at its place.\<close>

fun putNode :: "node \<Rightarrow> node list \<Rightarrow> node list" where
  "putNode n [] = [n]"
| "putNode n (k # ks) =
     (if nodeName k = nodeName n then n # ks
      else if lessStr (nodeName n) (nodeName k) then n # k # ks
      else k # putNode n ks)"

subsection \<open>Paths\<close>

text \<open>
  Paths are Unix paths: the separator is the slash. The components of a path are the
  non-empty pieces between slashes.
\<close>

fun splitSlash :: "string \<Rightarrow> string list" where
  "splitSlash [] = [[]]"
| "splitSlash (c # cs) =
     (if c = CHR ''/'' then [] # splitSlash cs
      else (case splitSlash cs of
              [] \<Rightarrow> [[c]]
            | w # ws \<Rightarrow> (c # w) # ws))"

definition components :: "string \<Rightarrow> string list" where
  "components path = filter (\<lambda>c. c \<noteq> []) (splitSlash path)"

fun joinSlash :: "string list \<Rightarrow> string" where
  "joinSlash [] = []"
| "joinSlash [c] = c"
| "joinSlash (c # cs) = c @ ''/'' @ joinSlash cs"

text \<open>
  \<open>filepath.Clean\<close>: repeated separators become one, every \<open>.\<close> component goes, every
  inner \<open>..\<close> goes with the component before it, a \<open>..\<close> at the start of a rooted path
  goes, and the empty result is \<open>.\<close>. \<open>cleanStack\<close> reads the components from left to
  right and keeps the components of the result so far, the last one first.
\<close>

fun cleanStack :: "string list \<Rightarrow> bool \<Rightarrow> string list \<Rightarrow> string list" where
  "cleanStack stack rooted [] = rev stack"
| "cleanStack stack rooted (c # cs) =
     (if c = ''.'' then cleanStack stack rooted cs
      else if c = ''..'' then
        (case stack of
           [] \<Rightarrow> if rooted then cleanStack [] rooted cs else cleanStack [''..''] rooted cs
         | c' # below \<Rightarrow>
             if c' = ''..'' then cleanStack (''..'' # stack) rooted cs
             else cleanStack below rooted cs)
      else cleanStack (c # stack) rooted cs)"

definition cleanComponents :: "string \<Rightarrow> string list" where
  "cleanComponents path = cleanStack [] (hasPrefix path ''/'') (components path)"

definition Clean :: "string \<Rightarrow> string" where
  "Clean path =
     (let out = (if hasPrefix path ''/'' then ''/'' else []) @ joinSlash (cleanComponents path)
      in if out = [] then ''.'' else out)"

text \<open>
  \<open>filepath.Join\<close> of two elements: empty elements are ignored and the result is
  cleaned; the result is empty when both elements are.
\<close>

definition Join :: "string \<Rightarrow> string \<Rightarrow> string" where
  "Join a b =
     (if a = [] \<and> b = [] then []
      else if a = [] then Clean b
      else if b = [] then Clean a
      else Clean (a @ ''/'' @ b))"

text \<open>
  The components that lead from the directory \<open>dir\<close> to \<open>path\<close>, when \<open>path\<close> is \<open>dir\<close> or
  lies below it. A path that does not lie below \<open>dir\<close> names nothing.
\<close>

definition relPath :: "string \<Rightarrow> string \<Rightarrow> string list option" where
  "relPath dir path =
     (let d = cleanComponents dir; p = cleanComponents path
      in if hasPrefix path ''/'' = hasPrefix dir ''/'' \<and> take (length d) p = d
         then Some (drop (length d) p)
         else None)"

subsection \<open>Reading and writing\<close>

fun readNode :: "string list \<Rightarrow> node \<Rightarrow> error + string" where
  "readNode cs (NoInfo n e) = Inl e"
| "readNode cs (DirErr n e) = (if cs = [] then Inl (Error ''is a directory'') else Inl e)"
| "readNode [] (File n d) = Inr d"
| "readNode (c # cs) (File n d) = Inl (Error ''not a directory'')"
| "readNode [] (Dir n ks) = Inl (Error ''is a directory'')"
| "readNode (c # cs) (Dir n ks) =
     (case findNode c ks of
        None \<Rightarrow> Inl (Error ''no such file or directory'')
      | Some k \<Rightarrow> readNode cs k)"

fun mkdirNode :: "string list \<Rightarrow> node \<Rightarrow> error + node" where
  "mkdirNode cs (NoInfo n e) = Inl e"
| "mkdirNode cs (DirErr n e) = (if cs = [] then Inr (DirErr n e) else Inl e)"
| "mkdirNode cs (File n d) = Inl (Error ''not a directory'')"
| "mkdirNode [] (Dir n ks) = Inr (Dir n ks)"
| "mkdirNode (c # cs) (Dir n ks) =
     (case mkdirNode cs (case findNode c ks of None \<Rightarrow> Dir c [] | Some k \<Rightarrow> k) of
        Inl e \<Rightarrow> Inl e
      | Inr k' \<Rightarrow> Inr (Dir n (putNode k' ks)))"

text \<open>\<open>os.Create\<close> makes a new empty file or empties the file that is there.\<close>

fun createNode :: "string list \<Rightarrow> node \<Rightarrow> error + node" where
  "createNode cs (NoInfo n e) = Inl e"
| "createNode cs (DirErr n e) = (if cs = [] then Inl (Error ''is a directory'') else Inl e)"
| "createNode [] (File n d) = Inr (File n [])"
| "createNode (c # cs) (File n d) = Inl (Error ''not a directory'')"
| "createNode [] (Dir n ks) = Inl (Error ''is a directory'')"
| "createNode (c # cs) (Dir n ks) =
     (case findNode c ks of
        None \<Rightarrow>
          if cs = [] then Inr (Dir n (putNode (File c []) ks))
          else Inl (Error ''no such file or directory'')
      | Some k \<Rightarrow>
          (case createNode cs k of
             Inl e \<Rightarrow> Inl e
           | Inr k' \<Rightarrow> Inr (Dir n (putNode k' ks))))"

text \<open>What is written through an open file becomes the content of that file.\<close>

fun writeNode :: "string list \<Rightarrow> string \<Rightarrow> node \<Rightarrow> node" where
  "writeNode [] d (File n old) = File n d"
| "writeNode (c # cs) d (Dir n ks) =
     (case findNode c ks of
        None \<Rightarrow> Dir n ks
      | Some k \<Rightarrow> Dir n (putNode (writeNode cs d k) ks))"
| "writeNode cs d k = k"

text \<open>
  \<open>ioutil.ReadFile\<close>, \<open>os.MkdirAll\<close> and \<open>os.Create\<close> on a path, in the tree \<open>root\<close> at
  the directory \<open>dir\<close>, and what \<open>Execute\<close> writes through the file that \<open>os.Create\<close> has
  opened.
\<close>

definition ReadFile :: "string \<Rightarrow> node \<Rightarrow> string \<Rightarrow> error + string" where
  "ReadFile dir root path =
     (case relPath dir path of
        None \<Rightarrow> Inl (Error ''no such file or directory'')
      | Some cs \<Rightarrow> readNode cs root)"

definition MkdirAll :: "string \<Rightarrow> node \<Rightarrow> string \<Rightarrow> error + node" where
  "MkdirAll dir root path =
     (case relPath dir path of
        None \<Rightarrow> Inl (Error ''permission denied'')
      | Some cs \<Rightarrow> mkdirNode cs root)"

definition Create :: "string \<Rightarrow> node \<Rightarrow> string \<Rightarrow> error + node" where
  "Create dir root path =
     (case relPath dir path of
        None \<Rightarrow> Inl (Error ''no such file or directory'')
      | Some cs \<Rightarrow> createNode cs root)"

definition WriteFile :: "string \<Rightarrow> node \<Rightarrow> string \<Rightarrow> string \<Rightarrow> node" where
  "WriteFile dir root path d =
     (case relPath dir path of
        None \<Rightarrow> root
      | Some cs \<Rightarrow> writeNode cs d root)"

subsection \<open>\<open>filepath.Walk\<close>\<close>

text \<open>
  What \<open>filepath.Walk\<close> passes to its function besides the path: the \<open>os.FileInfo\<close>, of
  which the callback reads \<open>Name()\<close> and \<open>IsDir()\<close> and which is nil when \<open>os.Lstat\<close>
  has failed, and the error of \<open>os.Lstat\<close> or of the listing.
\<close>

fun infoOf :: "node \<Rightarrow> (string \<times> bool) option" where
  "infoOf (File n d) = Some (n, False)"
| "infoOf (Dir n ks) = Some (n, True)"
| "infoOf (DirErr n e) = Some (n, True)"
| "infoOf (NoInfo n e) = None"

fun errOf :: "node \<Rightarrow> error option" where
  "errOf (File n d) = None"
| "errOf (Dir n ks) = None"
| "errOf (DirErr n e) = Some e"
| "errOf (NoInfo n e) = Some e"

text \<open>
  In the loop over the entries of a directory \<open>SkipDir\<close> is passed over when it comes
  from a directory or from the call for an entry without \<open>FileInfo\<close>; from a file it
  is returned like any other error.
\<close>

fun passesSkipDir :: "node \<Rightarrow> bool" where
  "passesSkipDir (File n d) = False"
| "passesSkipDir (Dir n ks) = True"
| "passesSkipDir (DirErr n e) = True"
| "passesSkipDir (NoInfo n e) = True"

text \<open>
  \<open>walk\<close> of package \<open>filepath\<close>, as in the current standard library. The function is
  called on a file; on a directory together with the error of its listing, and the
  entries are walked when both that error and the returned error are nil; and, without
  a \<open>FileInfo\<close>, on an entry of which \<open>os.Lstat\<close> fails. The path of an entry is
  \<open>filepath.Join\<close> of the path of the directory and the name. The callback threads a
  state \<open>'s\<close>, which here holds the variables that the closure captures and the file
  system itself.

  The tree that is walked is the tree at the start. \<open>Walk\<close> lists a directory when it
  enters it, and \<open>loadTemplates\<close> creates entries below \<open>_static\<close> only, a directory that
  its callback always skips: no listing can show an entry made during the walk.
\<close>

fun walk ::
    "(string \<Rightarrow> (string \<times> bool) option \<Rightarrow> error option \<Rightarrow> 's \<Rightarrow> ('s \<times> error option) outcome)
      \<Rightarrow> string \<Rightarrow> node \<Rightarrow> 's \<Rightarrow> ('s \<times> error option) outcome"
  and walkEntries ::
    "(string \<Rightarrow> (string \<times> bool) option \<Rightarrow> error option \<Rightarrow> 's \<Rightarrow> ('s \<times> error option) outcome)
      \<Rightarrow> string \<Rightarrow> node list \<Rightarrow> 's \<Rightarrow> ('s \<times> error option) outcome" where
  "walk fn path (File n d) st = fn path (Some (n, False)) None st"
| "walk fn path (DirErr n e) st = fn path (Some (n, True)) (Some e) st"
| "walk fn path (NoInfo n e) st = fn path None (Some e) st"
| "walk fn path (Dir n ks) st =
     (case fn path (Some (n, True)) None st of
        Panic \<Rightarrow> Panic
      | Return (st', Some e) \<Rightarrow> Return (st', Some e)
      | Return (st', None) \<Rightarrow> walkEntries fn path ks st')"
| "walkEntries fn path [] st = Return (st, None)"
| "walkEntries fn path (k # ks) st =
     (case walk fn (Join path (nodeName k)) k st of
        Panic \<Rightarrow> Panic
      | Return (st', Some e) \<Rightarrow>
          if e = SkipDir \<and> passesSkipDir k then walkEntries fn path ks st'
          else Return (st', Some e)
      | Return (st', None) \<Rightarrow> walkEntries fn path ks st')"

text \<open>
  \<open>filepath.Walk\<close>: the walk of the root, with \<open>SkipDir\<close> and \<open>SkipAll\<close> turned into nil.
\<close>

definition Walk ::
  "(string \<Rightarrow> (string \<times> bool) option \<Rightarrow> error option \<Rightarrow> 's \<Rightarrow> ('s \<times> error option) outcome)
    \<Rightarrow> string \<Rightarrow> node \<Rightarrow> 's \<Rightarrow> ('s \<times> error option) outcome" where
  "Walk fn root k st =
     (case walk fn root k st of
        Panic \<Rightarrow> Panic
      | Return (st', Some e) \<Rightarrow>
          if e = SkipDir \<or> e = SkipAll then Return (st', None) else Return (st', Some e)
      | Return (st', None) \<Rightarrow> Return (st', None))"

text \<open>
  \<open>called fn path k st p i e st'\<close>: the walk of the node \<open>k\<close> at \<open>path\<close>, started in
  state \<open>st\<close>, calls \<open>fn p i e\<close> in state \<open>st'\<close>.
\<close>

inductive called ::
    "(string \<Rightarrow> (string \<times> bool) option \<Rightarrow> error option \<Rightarrow> 's \<Rightarrow> ('s \<times> error option) outcome)
      \<Rightarrow> string \<Rightarrow> node \<Rightarrow> 's \<Rightarrow> string \<Rightarrow> (string \<times> bool) option \<Rightarrow> error option \<Rightarrow> 's
      \<Rightarrow> bool"
  and calledEntries ::
    "(string \<Rightarrow> (string \<times> bool) option \<Rightarrow> error option \<Rightarrow> 's \<Rightarrow> ('s \<times> error option) outcome)
      \<Rightarrow> string \<Rightarrow> node list \<Rightarrow> 's \<Rightarrow> string \<Rightarrow> (string \<times> bool) option \<Rightarrow> error option \<Rightarrow> 's
      \<Rightarrow> bool"
  for fn :: "string \<Rightarrow> (string \<times> bool) option \<Rightarrow> error option \<Rightarrow> 's \<Rightarrow> ('s \<times> error option) outcome"
  where
  calledHere: "called fn path k st path (infoOf k) (errOf k) st"
| calledBelow:
    "fn path (Some (n, True)) None st = Return (st1, None)
      \<Longrightarrow> calledEntries fn path ks st1 p i e st'
      \<Longrightarrow> called fn path (Dir n ks) st p i e st'"
| calledFirst:
    "called fn (Join path (nodeName k)) k st p i e st'
      \<Longrightarrow> calledEntries fn path (k # ks) st p i e st'"
| calledLater:
    "walk fn (Join path (nodeName k)) k st = Return (st1, r)
      \<Longrightarrow> r = None \<or> (r = Some SkipDir \<and> passesSkipDir k)
      \<Longrightarrow> calledEntries fn path ks st1 p i e st'
      \<Longrightarrow> calledEntries fn path (k # ks) st p i e st'"

section \<open>The template manager\<close>

text \<open>
  The template engine is Go's \<open>html/template\<close>. What \<open>loadTemplates\<close>, \<open>getTemplate\<close> and
  \<open>RenderTemplate\<close> call of it is taken as given, for any type \<open>'g\<close> of template groups
  (a \<open>*template.Template\<close> with the templates associated with it), any type \<open>'t\<close> of
  single templates, any type \<open>'a\<close> of argument maps and any type \<open>'f\<close> of function maps:
  \<^item> \<open>NewParse funcs name src\<close> is \<open>template.New(name).Parse(src)\<close> when \<open>funcs\<close> is
    \<open>None\<close> and \<open>template.New(name).Funcs(f).Parse(src)\<close> when it is \<open>Some f\<close>;
  \<^item> \<open>AddParse g name src\<close> is \<open>g.New(name).Parse(src)\<close>, the group with the new
    template added;
  \<^item> \<open>Lookup g name\<close> is \<open>g.Lookup(name)\<close>, \<open>None\<close> for nil;
  \<^item> \<open>Execute t data\<close> is \<open>t.Execute(w, data)\<close>: the bytes written to \<open>w\<close> and the
    error returned; the data \<open>nil\<close> is \<open>None\<close>;
  \<^item> \<open>Executed g t\<close> is the group \<open>g\<close> once its template \<open>t\<close> has been executed:
    executing a template changes the group that it shares with the others.
\<close>

record ('f, 'g, 't, 'a) engine =
  NewParse :: "'f option \<Rightarrow> string \<Rightarrow> string \<Rightarrow> error + 'g"
  AddParse :: "'g \<Rightarrow> string \<Rightarrow> string \<Rightarrow> error + 'g"
  Lookup :: "'g \<Rightarrow> string \<Rightarrow> 't option"
  Execute :: "'t \<Rightarrow> 'a option \<Rightarrow> string \<times> error option"
  Executed :: "'g \<Rightarrow> 't \<Rightarrow> 'g"



text \<open>
  A handler is called with a pointer to the template manager. The model hands it the
  fields of the template manager other than the registry and the watcher.
\<close>

record ('f, 'g) tmFields =
  fDirectory :: string
  fTmplFuncs :: 'f
  fTmplList :: "'g option"

text \<open>
  A handler in the registry of the template manager, an \<open>interface{}\<close>, by what the two
  type assertions tell apart: a value of type
  \<open>func(*TemplateManager, string, *[]byte)\<close>, which may rewrite the bytes of the named
  template; a value of type
  \<open>func(*http.Request, *TemplateManager, *template.Template, map[string]interface{})\<close>,
  which may change the arguments; a value of any other dynamic type, with that type;
  and nil. The effect of a handler is taken to be confined to the bytes and to the
  arguments.
\<close>

datatype ('ty, 'f, 'g, 'rq, 't, 'a) tmHandler =
    BeforeParseFn "('f, 'g) tmFields \<Rightarrow> string \<Rightarrow> string \<Rightarrow> string"
  | BeforeRenderFn "'rq \<Rightarrow> ('f, 'g) tmFields \<Rightarrow> 't \<Rightarrow> 'a \<Rightarrow> 'a"
  | OtherValue 'ty
  | NilValue

text \<open>
  The dynamic type of a handler, given the two function types: what \<open>reflect.TypeOf\<close>
  returns for it.
\<close>

fun handlerType :: "'ty \<Rightarrow> 'ty \<Rightarrow> ('ty, 'f, 'g, 'rq, 't, 'a) tmHandler \<Rightarrow> 'ty option" where
  "handlerType sigBeforeParse sigBeforeRender (BeforeParseFn f) = Some sigBeforeParse"
| "handlerType sigBeforeParse sigBeforeRender (BeforeRenderFn f) = Some sigBeforeRender"
| "handlerType sigBeforeParse sigBeforeRender (OtherValue ty) = Some ty"
| "handlerType sigBeforeParse sigBeforeRender NilValue = None"

definition TmBeforeParse :: int where
  "TmBeforeParse = 0"

definition TmBeforeRender :: int where
  "TmBeforeRender = 1"

text \<open>
  \<open>TemplateManager\<close> embeds \<open>hooks\<close>. The watcher is nil (\<open>None\<close>) or watches a list of
  directories.
\<close>

record ('ty, 'rq, 'f, 'g, 't, 'a) TemplateManager =
    "('ty, ('ty, 'f, 'g, 'rq, 't, 'a) tmHandler) hooks" +
  directory :: string
  watcher :: "string list option"
  tmplFuncs :: 'f
  tmplList :: "'g option"

definition fieldsOf :: "('ty, 'rq, 'f, 'g, 't, 'a) TemplateManager \<Rightarrow> ('f, 'g) tmFields" where
  "fieldsOf tm = \<lparr>fDirectory = directory tm, fTmplFuncs = tmplFuncs tm, fTmplList = tmplList tm\<rparr>"

text \<open>
  \<open>newTemplateManager\<close>, with the function map \<open>funcs\<close> that it builds and the two
  signatures \<open>reflect.TypeOf((func(...))(nil))\<close> that it registers. The results of
  \<open>registerHook\<close> are dropped, as in the source.
\<close>

definition newTemplateManager ::
  "('ty, ('ty, 'f, 'g, 'rq, 't, 'a) tmHandler) reflection \<Rightarrow> 'ty \<Rightarrow> 'ty \<Rightarrow> 'f \<Rightarrow> string
    \<Rightarrow> ('ty, 'rq, 'f, 'g, 't, 'a) TemplateManager" where
  "newTemplateManager rf sigBeforeParse sigBeforeRender funcs dir =
     (let tm = \<lparr>list = Map.empty, directory = normPath dir, watcher = None,
                tmplFuncs = funcs, tmplList = None\<rparr>;
          tm = fst (registerHook rf tm TmBeforeParse sigBeforeParse);
          tm = fst (registerHook rf tm TmBeforeRender sigBeforeRender)
      in tm)"

subsection \<open>\<open>loadTemplates\<close>\<close>

text \<open>The variables that the callback of the walk captures, and the file system.\<close>

record 'g walkState =
  templates :: "'g option"
  staticTemplates :: "'g option"
  watched :: "string list"
  fsys :: node

text \<open>
  The loop over the before-parse handlers:
  \<open>hook.(func(*TemplateManager, string, *[]byte))(tm, tmplName, &fdata)\<close>. The type
  assertion panics on a handler of another type.
\<close>

fun fireBeforeParse ::
  "('ty, 'f, 'g, 'rq, 't, 'a) tmHandler list \<Rightarrow> ('f, 'g) tmFields \<Rightarrow> string \<Rightarrow> string
    \<Rightarrow> string outcome" where
  "fireBeforeParse [] tm tmplName fdata = Return fdata"
| "fireBeforeParse (BeforeParseFn f # hs) tm tmplName fdata =
     fireBeforeParse hs tm tmplName (f tm tmplName fdata)"
| "fireBeforeParse (_ # hs) tm tmplName fdata = Panic"

text \<open>
  The branch \<open>if static\<close> of the callback, up to the common \<open>if err != nil\<close>. The
  variable \<open>staticTemplates\<close> points to the group, so after \<open>Execute\<close> it is the group as
  the execution has left it.
\<close>

definition loadStatic ::
  "('f, 'g, 't, 'a) engine \<Rightarrow> ('ty, 'rq, 'f, 'g, 't, 'a) TemplateManager \<Rightarrow> string \<Rightarrow> string
    \<Rightarrow> string \<Rightarrow> 'g walkState \<Rightarrow> ('g walkState \<times> error option) outcome" where
  "loadStatic eng tm infoName tmplName fdata st =
     (case (case staticTemplates st of
              None \<Rightarrow> NewParse eng None tmplName fdata
            | Some g \<Rightarrow> AddParse eng g tmplName fdata) of
        Inl err \<Rightarrow> Return (st\<lparr>staticTemplates := None\<rparr>, Some err)
      | Inr g \<Rightarrow>
          let st = st\<lparr>staticTemplates := Some g\<rparr> in
          if \<not> hasPrefix tmplName ''_'' \<and> \<not> contains tmplName ''/_'' then
            let filename = directory tm @ ''/_'' @ tmplName in
            if length filename < length infoName + 1 then Panic
            else
              (case MkdirAll (directory tm) (fsys st)
                      (take (length filename - length infoName - 1) filename) of
                 Inl err \<Rightarrow> Return (st, Some err)
               | Inr fs1 \<Rightarrow>
                   (case Create (directory tm) fs1 filename of
                      Inl err \<Rightarrow> Return (st\<lparr>fsys := fs1\<rparr>, Some err)
                    | Inr fs2 \<Rightarrow>
                        (case Lookup eng g tmplName of
                           None \<Rightarrow> Panic
                         | Some t \<Rightarrow>
                             (case Execute eng t None of
                                (out, err) \<Rightarrow>
                                  Return (st\<lparr>staticTemplates := Some (Executed eng g t),
                                             fsys := WriteFile (directory tm) fs2 filename out\<rparr>,
                                          err)))))
          else Return (st, None))"

text \<open>The branch of the normal templates.\<close>

definition loadNormal ::
  "('f, 'g, 't, 'a) engine \<Rightarrow> ('ty, 'rq, 'f, 'g, 't, 'a) TemplateManager \<Rightarrow> string
    \<Rightarrow> string \<Rightarrow> 'g walkState \<Rightarrow> ('g walkState \<times> error option) outcome" where
  "loadNormal eng tm tmplName fdata st =
     (case fireBeforeParse (getHooks tm TmBeforeParse) (fieldsOf tm) tmplName fdata of
        Panic \<Rightarrow> Panic
      | Return fdata \<Rightarrow>
          (case templates st of
             None \<Rightarrow>
               (case NewParse eng (Some (tmplFuncs tm)) tmplName fdata of
                  Inl err \<Rightarrow> Return (st, Some err)
                | Inr g \<Rightarrow> Return (st\<lparr>templates := Some g\<rparr>, None))
           | Some g \<Rightarrow>
               (case AddParse eng g tmplName fdata of
                  Inl err \<Rightarrow> Return (st, Some err)
                | Inr g' \<Rightarrow> Return (st\<lparr>templates := Some g'\<rparr>, None))))"

text \<open>
  The callback that \<open>loadTemplates\<close> passes to \<open>filepath.Walk\<close>. It never reads its \<open>err\<close>
  argument (the variable is assigned by \<open>Watch\<close> and shadowed by \<open>ReadFile\<close>), and it
  calls \<open>info.IsDir()\<close> first, which panics on a nil \<open>FileInfo\<close>. A failure of
  \<open>tm.watcher.Watch\<close> is logged only. The slice \<open>path[len(tm.directory)+1:]\<close> panics
  when the path is too short.
\<close>

definition walkFn ::
  "('f, 'g, 't, 'a) engine \<Rightarrow> ('ty, 'rq, 'f, 'g, 't, 'a) TemplateManager \<Rightarrow> string
    \<Rightarrow> (string \<times> bool) option \<Rightarrow> error option \<Rightarrow> 'g walkState
    \<Rightarrow> ('g walkState \<times> error option) outcome" where
  "walkFn eng tm path0 info err st =
     (let path = normPath path0 in
      case info of
        None \<Rightarrow> Panic
      | Some (infoName, infoIsDir) \<Rightarrow>
          if infoIsDir then
            (if hasPrefix infoName ''.'' \<or> infoName = ''_static'' then Return (st, Some SkipDir)
             else Return (st\<lparr>watched := watched st @ [path]\<rparr>, None))
          else if hasSuffix infoName ''.html'' then
            (let static = hasPrefix path (directory tm @ ''/static/'') in
             case ReadFile (directory tm) (fsys st) path of
               Inl err \<Rightarrow> Return (st, Some err)
             | Inr fdata \<Rightarrow>
                 if length path < length (directory tm) + 1 then Panic
                 else
                   let tmplName = drop (length (directory tm) + 1) path in
                   if static then loadStatic eng tm infoName tmplName fdata st
                   else loadNormal eng tm tmplName fdata st)
          else Return (st, None))"

text \<open>
  \<open>loadTemplates\<close>. \<open>newWatcher\<close> is the error of \<open>fsnotify.NewWatcher()\<close>, if any. The
  goroutine \<open>tm.watch()\<close> is not part of the model. The result is the template manager
  and the file system afterwards, and the error returned.
\<close>

definition loadTemplates ::
  "('f, 'g, 't, 'a) engine \<Rightarrow> error option \<Rightarrow> ('ty, 'rq, 'f, 'g, 't, 'a) TemplateManager
    \<Rightarrow> node
    \<Rightarrow> (('ty, 'rq, 'f, 'g, 't, 'a) TemplateManager \<times> node \<times> error option) outcome" where
  "loadTemplates eng newWatcher tm root =
     (case newWatcher of
        Some err \<Rightarrow> Return (tm\<lparr>watcher := None\<rparr>, root, Some err)
      | None \<Rightarrow>
          (case Walk (walkFn eng tm) (directory tm) root
                  \<lparr>templates = None, staticTemplates = None, watched = [], fsys = root\<rparr> of
             Panic \<Rightarrow> Panic
           | Return (st, ret) \<Rightarrow>
               let tm = tm\<lparr>watcher := Some (watched st)\<rparr>;
                   tm = (if ret = None then tm\<lparr>tmplList := templates st\<rparr> else tm)
               in Return (tm, fsys st, ret)))"

subsection \<open>\<open>getTemplate\<close> and \<open>RenderTemplate\<close>\<close>

definition getTemplate ::
  "('f, 'g, 't, 'a) engine \<Rightarrow> ('ty, 'rq, 'f, 'g, 't, 'a) TemplateManager \<Rightarrow> string \<Rightarrow> 't option" where
  "getTemplate eng tm nm =
     (case tmplList tm of
        None \<Rightarrow> None
      | Some g \<Rightarrow> Lookup eng g (toLower nm))"

text \<open>
  The loop over the before-render handlers:
  \<open>hook.(func(*http.Request, *TemplateManager, *template.Template,
  map[string]interface{}))(req, tm, tmpl, args)\<close>.
\<close>

fun fireBeforeRender ::
  "('ty, 'f, 'g, 'rq, 't, 'a) tmHandler list \<Rightarrow> 'rq \<Rightarrow> ('f, 'g) tmFields \<Rightarrow> 't \<Rightarrow> 'a
    \<Rightarrow> 'a outcome" where
  "fireBeforeRender [] req tm tmpl args = Return args"
| "fireBeforeRender (BeforeRenderFn f # hs) req tm tmpl args =
     fireBeforeRender hs req tm tmpl (f req tm tmpl args)"
| "fireBeforeRender (_ # hs) req tm tmpl args = Panic"

text \<open>
  \<open>RenderTemplate\<close> returns what it has written to \<open>w\<close> and its error. The group in
  \<open>tm.tmplList\<close> is afterwards the group as the execution has left it, so the template
  manager is returned too.
\<close>

definition RenderTemplate ::
  "('f, 'g, 't, 'a) engine \<Rightarrow> ('ty, 'rq, 'f, 'g, 't, 'a) TemplateManager \<Rightarrow> 'rq \<Rightarrow> string \<Rightarrow> 'a
    \<Rightarrow> (('ty, 'rq, 'f, 'g, 't, 'a) TemplateManager \<times> string \<times> error option) outcome" where
  "RenderTemplate eng tm req nm args =
     (case getTemplate eng tm nm of
        None \<Rightarrow> Return (tm, [], Some (Error (''can't find template '' @ sq @ toLower nm @ sq)))
      | Some tmpl \<Rightarrow>
          (case fireBeforeRender (getHooks tm TmBeforeRender) req (fieldsOf tm) tmpl args of
             Panic \<Rightarrow> Panic
           | Return args \<Rightarrow>
               let tm' = tm\<lparr>tmplList := map_option (\<lambda>g. Executed eng g tmpl) (tmplList tm)\<rparr> in
               (case Execute eng tmpl (Some args) of
                  (out, Some err) \<Rightarrow>
                    Return (tm', out,
                            Some (Error (''failed to render template. Reason: ''
                                         @ errorString err)))
                | (out, None) \<Rightarrow> Return (tm', out, None))))"

section \<open>Example data\<close>

text \<open>
  A small instance of the reflection operations: a type is its printed name, a handler
  is nil or a pair of its type and a tag, and a type is assignable to itself only.
\<close>

definition rfx :: "(string, (string \<times> nat) option) reflection" where
  "rfx = \<lparr>TypeOf = map_option fst, AssignableTo = (=), KindIsFunc = (\<lambda>t. take 4 t = ''func'')\<rparr>"

definition h0 :: "(string, (string \<times> nat) option) hooks" where
  "h0 = \<lparr>list = Map.empty\<rparr>"

definition hx :: "(string, (string \<times> nat) option) hooks" where
  "hx = \<lparr>list = [1 \<mapsto> \<lparr>signiture = ''func(int)'', handler = [Some (''func(int)'', 7)]\<rparr>]\<rparr>"

definition vx :: Validation where
  "vx = \<lparr>HasErrors = False, errors = Some [''age'' \<mapsto> [''Required'']]\<rparr>"

text \<open>
  A template engine for the examples. It knows templates of literal text only: a
  source with an action delimiter is a parse error, a group is the list of the names
  and texts parsed so far with a flag that is set once a template of the group has
  been executed, executing a template writes its text, and a group with the flag set
  takes no further template, as in \<open>html/template\<close>.
\<close>

type_synonym exArgs = "(string \<times> string) list"

type_synonym exGroup = "bool \<times> (string \<times> string) list"

type_synonym exTm = "(string, string, unit, exGroup, string, exArgs) TemplateManager"

definition litEngine :: "(unit, exGroup, string, exArgs) engine" where
  "litEngine =
     \<lparr>NewParse = (\<lambda>funcs nm src.
         if contains src ''{{'' then Inl (Error ''template: unexpected action'')
         else Inr (False, [(nm, src)])),
      AddParse = (\<lambda>g nm src.
         if fst g then Inl (Error ''html/template: cannot Parse after Execute'')
         else if contains src ''{{'' then Inl (Error ''template: unexpected action'')
         else Inr (False, (nm, src) # snd g)),
      Lookup = (\<lambda>g nm. map_of (snd g) nm),
      Execute = (\<lambda>t data. (t, None)),
      Executed = (\<lambda>g t. (True, snd g))\<rparr>"

text \<open>The same engine, except that every execution fails after two bytes.\<close>

definition failEngine :: "(unit, exGroup, string, exArgs) engine" where
  "failEngine = litEngine\<lparr>Execute := (\<lambda>t data. (take 2 t, Some (Error ''nil pointer evaluating'')))\<rparr>"

text \<open>
  An engine that makes the arguments visible: executing a template writes its text and
  then the values of the arguments.
\<close>

definition echoEngine :: "(unit, exGroup, string, exArgs) engine" where
  "echoEngine =
     litEngine\<lparr>Execute := (\<lambda>t data.
       (t @ (case data of None \<Rightarrow> [] | Some args \<Rightarrow> concat (map snd args)), None))\<rparr>"

text \<open>
  The types of the handlers of the examples, by their printed names: the two function
  types, and \<open>main.RenderHook\<close>, a defined type whose underlying type is the
  before-render function type. Go's assignability admits a value of a defined type
  where the type wanted is not a defined type and has the same underlying type.
\<close>

definition sigBeforeParse :: string where
  "sigBeforeParse = ''func(*TemplateManager, string, *[]byte)''"

definition sigBeforeRender :: string where
  "sigBeforeRender =
     ''func(*http.Request, *TemplateManager, *template.Template, map[string]interface{})''"

definition rft ::
  "(string, (string, unit, exGroup, string, string, exArgs) tmHandler) reflection" where
  "rft =
     \<lparr>TypeOf = handlerType sigBeforeParse sigBeforeRender,
      AssignableTo = (\<lambda>t u. t = u \<or> (t = ''main.RenderHook'' \<and> u = sigBeforeRender)),
      KindIsFunc = (\<lambda>t. take 4 t = ''func'')\<rparr>"

text \<open>
  A template manager for the directory \<open>Views\<close>, and a tree with two normal templates
  and a static one.
\<close>

definition tmA :: exTm where
  "tmA = newTemplateManager rft sigBeforeParse sigBeforeRender () ''Views''"

definition fsA :: node where
  "fsA = Dir ''views''
           [File ''index.html'' ''<h1>index</h1>'',
            Dir ''static'' [Dir ''x'' [File ''y.html'' ''hello'']],
            Dir ''sub'' [File ''page.html'' ''<p>sub</p>'']]"

text \<open>The tree and the template manager after one \<open>loadTemplates\<close>.\<close>

definition fsA1 :: node where
  "fsA1 = Dir ''views''
            [Dir ''_static'' [Dir ''x'' [File ''y.html'' ''hello'']],
             File ''index.html'' ''<h1>index</h1>'',
             Dir ''static'' [Dir ''x'' [File ''y.html'' ''hello'']],
             Dir ''sub'' [File ''page.html'' ''<p>sub</p>'']]"

definition tmA1 :: exTm where
  "tmA1 = tmA\<lparr>watcher := Some [''views'', ''views/static'', ''views/static/x'', ''views/sub''],
              tmplList := Some (False, [(''sub/page.html'', ''<p>sub</p>''),
                                        (''index.html'', ''<h1>index</h1>'')])\<rparr>"

text \<open>The tree \<open>fsA1\<close> with other bytes in the generated file.\<close>

definition fsStale :: node where
  "fsStale = Dir ''views''
               [Dir ''_static'' [Dir ''x'' [File ''y.html'' ''stale'']],
                File ''index.html'' ''<h1>index</h1>'',
                Dir ''static'' [Dir ''x'' [File ''y.html'' ''hello'']],
                Dir ''sub'' [File ''page.html'' ''<p>sub</p>'']]"

text \<open>The state of the walk of \<open>fsA\<close> when it reaches \<open>static/x/y.html\<close>.\<close>

definition stA :: "exGroup walkState" where
  "stA = \<lparr>templates = Some (False, [(''index.html'', ''<h1>index</h1>'')]),
          staticTemplates = None,
          watched = [''views'', ''views/static'', ''views/static/x''], fsys = fsA\<rparr>"

text \<open>
  A tree with a marked static fragment, and the state of its walk when it reaches the
  fragment.
\<close>

definition fsNav :: node where
  "fsNav = Dir ''views'' [Dir ''static'' [File ''_nav.html'' ''nav'']]"

definition stNav :: "exGroup walkState" where
  "stNav = \<lparr>templates = None, staticTemplates = None,
            watched = [''views'', ''views/static''], fsys = fsNav\<rparr>"

text \<open>
  A tree with two static fragments, and the state of its walk when it reaches the
  second, after the first has been executed.
\<close>

definition fsTwo :: node where
  "fsTwo = Dir ''views'' [Dir ''static'' [File ''a.html'' ''a'', File ''b.html'' ''b'']]"

definition stTwo :: "exGroup walkState" where
  "stTwo = \<lparr>templates = None, staticTemplates = Some (True, [(''static/a.html'', ''a'')]),
            watched = [''views'', ''views/static''],
            fsys = Dir ''views'' [Dir ''_static'' [File ''a.html'' ''a''],
                                  Dir ''static'' [File ''a.html'' ''a'', File ''b.html'' ''b'']]\<rparr>"

text \<open>
  The tree \<open>fsA1\<close> when the directory \<open>sub\<close> can no longer be listed, and the template
  manager after a \<open>loadTemplates\<close> of it.
\<close>

definition fsLocked :: node where
  "fsLocked = Dir ''views''
                [Dir ''_static'' [Dir ''x'' [File ''y.html'' ''hello'']],
                 File ''index.html'' ''<h1>index</h1>'',
                 Dir ''static'' [Dir ''x'' [File ''y.html'' ''hello'']],
                 DirErr ''sub'' (Error ''permission denied'')]"

definition tmLocked :: exTm where
  "tmLocked = tmA1\<lparr>tmplList := Some (False, [(''index.html'', ''<h1>index</h1>'')])\<rparr>"

text \<open>
  The tree \<open>fsA1\<close> with a new directory that holds a template with a syntax error, and
  the template manager after a \<open>loadTemplates\<close> that fails on it.
\<close>

definition fsB :: node where
  "fsB = Dir ''views''
           [Dir ''_static'' [Dir ''x'' [File ''y.html'' ''hello'']],
            File ''index.html'' ''<h1>index</h1>'',
            Dir ''partials'' [File ''nav.html'' ''<nav>{{</nav>''],
            Dir ''static'' [Dir ''x'' [File ''y.html'' ''hello'']],
            Dir ''sub'' [File ''page.html'' ''<p>sub</p>'']]"

definition tmB :: exTm where
  "tmB = tmA1\<lparr>watcher := Some [''views'', ''views/partials'']\<rparr>"

text \<open>The template manager \<open>tmA1\<close> with two before-render handlers attached.\<close>

definition addUser :: "string \<Rightarrow> (unit, exGroup) tmFields \<Rightarrow> string \<Rightarrow> exArgs \<Rightarrow> exArgs" where
  "addUser req tm tmpl args = args @ [(''user'', ''x'')]"

definition addLang :: "string \<Rightarrow> (unit, exGroup) tmFields \<Rightarrow> string \<Rightarrow> exArgs \<Rightarrow> exArgs" where
  "addLang req tm tmpl args = args @ [(''lang'', ''y'')]"

definition tmH :: exTm where
  "tmH = (case attachAll rft tmA1 [(TmBeforeRender, BeforeRenderFn addUser),
                                   (TmBeforeRender, BeforeRenderFn addLang)] of
            None \<Rightarrow> tmA1
          | Some tm \<Rightarrow> tm)"

text \<open>
  The template manager \<open>tmA1\<close> with a before-render handler of the defined type
  \<open>main.RenderHook\<close> in its registry, as \<open>AddHook\<close> leaves it.
\<close>

definition tmN :: exTm where
  "tmN = tmA1\<lparr>list := (list tmA1)(TmBeforeRender \<mapsto>
           \<lparr>signiture = sigBeforeRender, handler = [OtherValue ''main.RenderHook'']\<rparr>)\<rparr>"

section \<open>Properties of the helper functions\<close>

lemma showInt_small:
  "showInt 1 = ''1''" "showInt 2 = ''2''" "showInt 3 = ''3''" "showInt 4 = ''4''"
  "showInt 10 = ''10''" "showInt 18 = ''18''"
  by (simp_all add: showInt_def showNat.simps digit_def)

lemma sdiv_nonneg: "0 \<le> (a::int) \<Longrightarrow> 0 < b \<Longrightarrow> a sdiv b = a div b"
  by (simp add: signed_divide_int_def sgn_if)

text \<open>
  Claim C6. For \<open>s\<close> elapsed whole seconds the relative-time helper returns
  \<open>"< 1 minute ago"\<close> under 60, \<open>"1 minute ago"\<close> under 120, \<open>"N minutes ago"\<close> under one
  hour, \<open>"1 hour ago"\<close> under two hours, \<open>"N hours ago"\<close> under 24 hours, \<open>"1 day ago"\<close>
  under 48 hours, \<open>"N days ago"\<close> under 30 days, \<open>"1 month ago"\<close> under 60 days,
  \<open>"N months ago"\<close> under 360 days and \<open>"> 1 year ago"\<close> from there on, where \<open>N\<close> is the
  number of whole units elapsed; 45 seconds give \<open>"< 1 minute ago"\<close> and three hours
  give \<open>"3 hours ago"\<close>.
\<close>

theorem since_thresholds:
  "(s < 60 \<longrightarrow> since s = ''< 1 minute ago'')
 \<and> (60 \<le> s \<and> s < 120 \<longrightarrow> since s = ''1 minute ago'')
 \<and> (120 \<le> s \<and> s < 3600 \<longrightarrow>
      since s = showInt (s div 60) @ '' minutes ago'' \<and> 2 \<le> s div 60 \<and> s div 60 \<le> 59)
 \<and> (3600 \<le> s \<and> s < 7200 \<longrightarrow> since s = ''1 hour ago'')
 \<and> (7200 \<le> s \<and> s < 86400 \<longrightarrow>
      since s = showInt (s div 3600) @ '' hours ago'' \<and> 2 \<le> s div 3600 \<and> s div 3600 \<le> 23)
 \<and> (86400 \<le> s \<and> s < 172800 \<longrightarrow> since s = ''1 day ago'')
 \<and> (172800 \<le> s \<and> s < 2592000 \<longrightarrow>
      since s = showInt (s div 86400) @ '' days ago'' \<and> 2 \<le> s div 86400 \<and> s div 86400 \<le> 29)
 \<and> (2592000 \<le> s \<and> s < 5184000 \<longrightarrow> since s = ''1 month ago'')
 \<and> (5184000 \<le> s \<and> s < 31104000 \<longrightarrow>
      since s = showInt (s div 2592000) @ '' months ago''
      \<and> 2 \<le> s div 2592000 \<and> s div 2592000 \<le> 11)
 \<and> (31104000 \<le> s \<longrightarrow> since s = ''> 1 year ago'')
 \<and> since 45 = ''< 1 minute ago''
 \<and> since (3 * 60 * 60) = ''3 hours ago''"
proof -
  have a: "s < 60 \<longrightarrow> since s = ''< 1 minute ago''"
    by (simp add: since_def)
  have b: "60 \<le> s \<and> s < 120 \<longrightarrow> since s = ''1 minute ago''"
    by (simp add: since_def)
  have c: "120 \<le> s \<and> s < 3600 \<longrightarrow>
      since s = showInt (s div 60) @ '' minutes ago'' \<and> 2 \<le> s div 60 \<and> s div 60 \<le> 59"
    by (auto simp add: since_def sdiv_nonneg)
  have d: "3600 \<le> s \<and> s < 7200 \<longrightarrow> since s = ''1 hour ago''"
    by (simp add: since_def)
  have e: "7200 \<le> s \<and> s < 86400 \<longrightarrow>
      since s = showInt (s div 3600) @ '' hours ago'' \<and> 2 \<le> s div 3600 \<and> s div 3600 \<le> 23"
    by (auto simp add: since_def sdiv_nonneg)
  have f: "86400 \<le> s \<and> s < 172800 \<longrightarrow> since s = ''1 day ago''"
    by (simp add: since_def)
  have g: "172800 \<le> s \<and> s < 2592000 \<longrightarrow>
      since s = showInt (s div 86400) @ '' days ago'' \<and> 2 \<le> s div 86400 \<and> s div 86400 \<le> 29"
    by (auto simp add: since_def sdiv_nonneg)
  have h: "2592000 \<le> s \<and> s < 5184000 \<longrightarrow> since s = ''1 month ago''"
    by (simp add: since_def)
  have i: "5184000 \<le> s \<and> s < 31104000 \<longrightarrow>
      since s = showInt (s div 2592000) @ '' months ago''
      \<and> 2 \<le> s div 2592000 \<and> s div 2592000 \<le> 11"
    by (auto simp add: since_def sdiv_nonneg)
  have j: "31104000 \<le> s \<longrightarrow> since s = ''> 1 year ago''"
    by (simp add: since_def)
  have k: "since 45 = ''< 1 minute ago''"
    by (simp add: since_def)
  have l: "since (3 * 60 * 60) = ''3 hours ago''"
    by (simp add: since_def sdiv_nonneg showInt_small)
  from a b c d e f g h i j k l show ?thesis by blast
qed

theorem since_thresholds_witness:
  "since 30 = ''< 1 minute ago'' \<and> since 90 = ''1 minute ago'' \<and> since 600 = ''10 minutes ago''
   \<and> since 5000 = ''1 hour ago'' \<and> since 36000 = ''10 hours ago'' \<and> since 100000 = ''1 day ago''
   \<and> since 864000 = ''10 days ago'' \<and> since 3000000 = ''1 month ago''
   \<and> since 25920000 = ''10 months ago'' \<and> since 40000000 = ''> 1 year ago''"
  using since_thresholds [of 30] since_thresholds [of 90] since_thresholds [of 600]
    since_thresholds [of 5000] since_thresholds [of 36000] since_thresholds [of 100000]
    since_thresholds [of 864000] since_thresholds [of 3000000]
    since_thresholds [of 25920000] since_thresholds [of 40000000]
  by (simp add: showInt_small)

text \<open>
  Claim C7. The pagination helper returns the empty string when \<open>nPages = 1\<close>. For
  \<open>curPage = 3\<close>, \<open>nPages = 10\<close> and \<open>offset = 1\<close> its output is, in this order: the first
  link and the previous link (to page 2), an ellipsis, the numbered links of pages 2, 3
  (marked active) and 4 and of no other page, an ellipsis, the next link (to page 4) and
  the last link.
\<close>

theorem paginate_window:
  "paginate curPage 1 offset url = ''''
 \<and> paginate 3 10 1 url =
     ''<ul class='pagination'>''
     @ ''<li><a href='' @ sq @ url @ ''/page/first'>&laquo;First</a></li>''
     @ ''<li><a href='' @ sq @ url @ ''/page/2'>&laquo;</a></li>''
     @ ''<li><span>...</span></li>''
     @ ''<li><a href='' @ sq @ url @ ''/page/2'>2</a></li>''
     @ ''<li class='active'><a href='' @ sq @ url @ ''/page/3'>3</a></li>''
     @ ''<li><a href='' @ sq @ url @ ''/page/4'>4</a></li>''
     @ ''<li><span>...</span></li>''
     @ ''<li><a href='' @ sq @ url @ ''/page/4'>&raquo;</a></li>''
     @ ''<li><a href='' @ sq @ url @ ''/page/last'>Last&raquo;</a></li>''
     @ ''</ul>''"
proof -
  have loop: "pageLoop 3 10 1 url 2 r =
      r @ ''<li><a href='' @ sq @ url @ ''/page/2'>2</a></li>''
        @ ''<li class='active'><a href='' @ sq @ url @ ''/page/3'>3</a></li>''
        @ ''<li><a href='' @ sq @ url @ ''/page/4'>4</a></li>''" for r
    by (simp add: pageLoop.simps [of 3 10 1 url 2] pageLoop.simps [of 3 10 1 url 3]
        pageLoop.simps [of 3 10 1 url 4] pageLoop.simps [of 3 10 1 url 5] showInt_small sq_def)
  have one: "paginate curPage 1 offset url = ''''"
    by (simp add: paginate_def)
  show ?thesis
    unfolding one by (simp add: paginate_def loop showInt_small sq_def)
qed

section \<open>Properties of the hook registry\<close>

lemma attachAll_getHooks:
  "attachAll rf h ops = Some h' \<Longrightarrow>
     getHooks h' hookID = getHooks h hookID @ map snd (filter (\<lambda>p. fst p = hookID) ops)"
proof (induction ops arbitrary: h)
  case Nil
  then show ?case by simp
next
  case (Cons p ops)
  obtain i x where p: "p = (i, x)" by (cases p)
  from Cons.prems p obtain h1 where
    step: "AddHook rf h i x = Return (h1, None)" and rest: "attachAll rf h1 ops = Some h'"
    by (auto split: outcome.splits option.splits prod.splits)
  from step have "getHooks h1 hookID = getHooks h hookID @ (if i = hookID then [x] else [])"
    by (auto simp: AddHook_def getHooks_def split: option.splits if_splits)
  with Cons.IH [OF rest] p show ?case by simp
qed

text \<open>
  Claim C4. \<open>AddHook\<close> returns \<open>ErrHookUnknownID\<close> for an id that was never registered.
  For a registered id, a handler whose dynamic type is not assignable to the registered
  signature gets \<open>ErrHookInvalidHandler\<close> and the registry is returned as it was; a
  handler whose type is assignable is appended after the handlers already attached, and
  no other hook changes.
\<close>

theorem AddHook_checks:
  "(list h hookID = None \<longrightarrow> AddHook rf h hookID hnd = Return (h, Some ErrHookUnknownID))
 \<and> (\<forall>hk t. list h hookID = Some hk \<and> TypeOf rf hnd = Some t
        \<and> \<not> AssignableTo rf t (signiture hk) \<longrightarrow>
      AddHook rf h hookID hnd = Return (h, Some ErrHookInvalidHandler))
 \<and> (\<forall>hk t. list h hookID = Some hk \<and> TypeOf rf hnd = Some t
        \<and> AssignableTo rf t (signiture hk) \<longrightarrow>
      (\<exists>h'. AddHook rf h hookID hnd = Return (h', None)
          \<and> getHooks h' hookID = getHooks h hookID @ [hnd]
          \<and> (\<forall>i. i \<noteq> hookID \<longrightarrow> list h' i = list h i)))"
  by (auto simp: AddHook_def getHooks_def)

theorem AddHook_checks_witness:
  "AddHook rfx hx 2 (Some (''func(int)'', 8)) = Return (hx, Some ErrHookUnknownID)
 \<and> AddHook rfx hx 1 (Some (''func()'', 8)) = Return (hx, Some ErrHookInvalidHandler)
 \<and> (\<exists>h'. AddHook rfx hx 1 (Some (''func(int)'', 8)) = Return (h', None)
        \<and> getHooks h' 1 = [Some (''func(int)'', 7), Some (''func(int)'', 8)])"
proof -
  have l1: "list hx 1 = Some \<lparr>signiture = ''func(int)'', handler = [Some (''func(int)'', 7)]\<rparr>"
    and l2: "list hx 2 = None"
    by (simp_all add: hx_def)
  have g: "getHooks hx 1 = [Some (''func(int)'', 7)]"
    by (simp add: getHooks_def l1)
  from AddHook_checks [of hx 2 rfx "Some (''func(int)'', 8)"] l2
  have a: "AddHook rfx hx 2 (Some (''func(int)'', 8)) = Return (hx, Some ErrHookUnknownID)"
    by simp
  from AddHook_checks [of hx 1 rfx "Some (''func()'', 8)"] l1
  have b: "AddHook rfx hx 1 (Some (''func()'', 8)) = Return (hx, Some ErrHookInvalidHandler)"
    by (simp add: rfx_def)
  from AddHook_checks [of hx 1 rfx "Some (''func(int)'', 8)"] l1
  have c: "\<exists>h'. AddHook rfx hx 1 (Some (''func(int)'', 8)) = Return (h', None)
        \<and> getHooks h' 1 = [Some (''func(int)'', 7), Some (''func(int)'', 8)]"
    by (auto simp: rfx_def g)
  from a b c show ?thesis by blast
qed

text \<open>
  Claim C8. After a sequence of successful attachments \<open>getHooks\<close> of an id returns the
  handlers it had before followed by the handlers attached to that id, in the order of
  attachment; right after \<open>registerHook\<close> it returns none; and for an id that was never
  registered it returns the empty list (it never panics: \<open>getHooks\<close> is a total
  function whose result is a list).
\<close>

theorem getHooks_attach_order:
  "(attachAll rf h ops = Some h' \<longrightarrow>
      getHooks h' hookID = getHooks h hookID @ map snd (filter (\<lambda>p. fst p = hookID) ops))
 \<and> (registerHook rf h hookID sig = (h1, None) \<longrightarrow> getHooks h1 hookID = [])
 \<and> (list h hookID = None \<longrightarrow> getHooks h hookID = [])"
proof -
  have a: "attachAll rf h ops = Some h' \<longrightarrow>
      getHooks h' hookID = getHooks h hookID @ map snd (filter (\<lambda>p. fst p = hookID) ops)"
    by (simp add: attachAll_getHooks)
  have b: "registerHook rf h hookID sig = (h1, None) \<longrightarrow> getHooks h1 hookID = []"
    by (auto simp: registerHook_def getHooks_def split: option.splits if_splits)
  have c: "list h hookID = None \<longrightarrow> getHooks h hookID = []"
    by (simp add: getHooks_def)
  from a b c show ?thesis by blast
qed

theorem getHooks_attach_order_witness:
  "\<exists>h1 h2. registerHook rfx h0 1 ''func(int)'' = (h1, None) \<and> getHooks h1 1 = []
     \<and> attachAll rfx h1 [(1, Some (''func(int)'', 7)), (1, Some (''func(int)'', 8))] = Some h2
     \<and> getHooks h2 1 = [Some (''func(int)'', 7), Some (''func(int)'', 8)]
     \<and> getHooks h0 5 = []"
proof -
  define h1 where "h1 = h0\<lparr>list := [1 \<mapsto> \<lparr>signiture = ''func(int)'', handler = []\<rparr>]\<rparr>"
  define h2 where "h2 = h0\<lparr>list := [1 \<mapsto> \<lparr>signiture = ''func(int)'',
      handler = [Some (''func(int)'', 7), Some (''func(int)'', 8)]\<rparr>]\<rparr>"
  have r: "registerHook rfx h0 1 ''func(int)'' = (h1, None)"
    by (simp add: registerHook_def h0_def h1_def rfx_def)
  have a: "attachAll rfx h1 [(1, Some (''func(int)'', 7)), (1, Some (''func(int)'', 8))] = Some h2"
    by (simp add: AddHook_def h1_def h2_def rfx_def h0_def)
  have n: "list h0 5 = None"
    by (simp add: h0_def)
  from getHooks_attach_order [of rfx h1 "[(1, Some (''func(int)'', 7)), (1, Some (''func(int)'', 8))]"
      h2 1 "''func(int)''" h1] a
    getHooks_attach_order [of rfx h0 "[]" h0 1 "''func(int)''" h1] r
    getHooks_attach_order [of rfx h0 "[]" h0 5 "''func(int)''" h1] n
  show ?thesis
    by auto
qed


section \<open>Properties of the validators\<close>

lemma addValidationResult_invalid:
  "errors v = Some m \<Longrightarrow>
   addValidationResult v nm False msg =
     Return (v\<lparr>HasErrors := True,
               errors := Some (m(nm \<mapsto> (case m nm of None \<Rightarrow> [] | Some l \<Rightarrow> l) @ [msg]))\<rparr>,
             \<lparr>valid = False, name = nm,
               index = int (length (case m nm of None \<Rightarrow> [] | Some l \<Rightarrow> l))\<rparr>)"
  by (simp add: addValidationResult_def Let_def)

lemma addValidationResult_valid:
  "addValidationResult v nm True msg = Return (v, \<lparr>valid = True, name = nm, index = - 1\<rparr>)"
  by (simp add: addValidationResult_def)

lemma addValidationResult_nil_map:
  "errors v = None \<Longrightarrow> addValidationResult v nm False msg = Panic"
  by (simp add: addValidationResult_def)

text \<open>
  Claim C9. With an allocated \<open>errors\<close> map, \<open>Min\<close>, \<open>Max\<close> and \<open>MinMax\<close> called with a
  nil object return a result that is not valid, set \<open>HasErrors\<close> and append their
  message to the errors of the name. Called with a non-nil object that is neither an
  \<open>int\<close> nor a \<open>string\<close> nor a slice, they return nil and leave the validation as it was.
\<close>

theorem Min_Max_MinMax_nil_and_unsupported:
  "(errors v = Some m \<longrightarrow>
      (\<exists>v' r. Min_v v nm ObjNil lo = Return (v', Some r) \<and> \<not> valid r \<and> HasErrors v'
         \<and> errors v' = Some (m(nm \<mapsto> (case m nm of None \<Rightarrow> [] | Some l \<Rightarrow> l)
              @ [''Must be larger than '' @ showInt lo])))
    \<and> (\<exists>v' r. Max_v v nm ObjNil hi = Return (v', Some r) \<and> \<not> valid r \<and> HasErrors v'
         \<and> errors v' = Some (m(nm \<mapsto> (case m nm of None \<Rightarrow> [] | Some l \<Rightarrow> l)
              @ [''Must be smaller than '' @ showInt hi])))
    \<and> (\<exists>v' r. MinMax v nm ObjNil lo hi = Return (v', Some r) \<and> \<not> valid r \<and> HasErrors v'
         \<and> errors v' = Some (m(nm \<mapsto> (case m nm of None \<Rightarrow> [] | Some l \<Rightarrow> l)
              @ [''Must be larger '' @ showInt lo @ '' and smaller '' @ showInt hi]))))
 \<and> (ob \<noteq> ObjNil \<and> (\<forall>i. ob \<noteq> ObjInt i) \<and> (\<forall>s. ob \<noteq> ObjString s) \<and> (\<forall>n. ob \<noteq> ObjSlice n) \<longrightarrow>
      Min_v v nm ob lo = Return (v, None) \<and> Max_v v nm ob hi = Return (v, None)
      \<and> MinMax v nm ob lo hi = Return (v, None))"
proof -
  have a: "errors v = Some m \<longrightarrow>
      (\<exists>v' r. Min_v v nm ObjNil lo = Return (v', Some r) \<and> \<not> valid r \<and> HasErrors v'
         \<and> errors v' = Some (m(nm \<mapsto> (case m nm of None \<Rightarrow> [] | Some l \<Rightarrow> l)
              @ [''Must be larger than '' @ showInt lo])))"
    by (simp add: addValidationResult_invalid found_def)
  have b: "errors v = Some m \<longrightarrow>
      (\<exists>v' r. Max_v v nm ObjNil hi = Return (v', Some r) \<and> \<not> valid r \<and> HasErrors v'
         \<and> errors v' = Some (m(nm \<mapsto> (case m nm of None \<Rightarrow> [] | Some l \<Rightarrow> l)
              @ [''Must be smaller than '' @ showInt hi])))"
    by (simp add: addValidationResult_invalid found_def)
  have c: "errors v = Some m \<longrightarrow>
      (\<exists>v' r. MinMax v nm ObjNil lo hi = Return (v', Some r) \<and> \<not> valid r \<and> HasErrors v'
         \<and> errors v' = Some (m(nm \<mapsto> (case m nm of None \<Rightarrow> [] | Some l \<Rightarrow> l)
              @ [''Must be larger '' @ showInt lo @ '' and smaller '' @ showInt hi])))"
    by (simp add: addValidationResult_invalid found_def)
  have d: "ob \<noteq> ObjNil \<and> (\<forall>i. ob \<noteq> ObjInt i) \<and> (\<forall>s. ob \<noteq> ObjString s) \<and> (\<forall>n. ob \<noteq> ObjSlice n) \<longrightarrow>
      Min_v v nm ob lo = Return (v, None) \<and> Max_v v nm ob hi = Return (v, None)
      \<and> MinMax v nm ob lo hi = Return (v, None)"
    by (cases ob) simp_all
  from a b c d show ?thesis by blast
qed

theorem Min_Max_MinMax_nil_and_unsupported_witness:
  "(\<exists>v' r. Min_v vx ''age'' ObjNil 18 = Return (v', Some r) \<and> \<not> valid r \<and> HasErrors v'
      \<and> errors v' = Some [''age'' \<mapsto> [''Required'', ''Must be larger than 18'']])
 \<and> (\<exists>v' r. Max_v vx ''age'' ObjNil 18 = Return (v', Some r) \<and> \<not> valid r \<and> HasErrors v'
      \<and> errors v' = Some [''age'' \<mapsto> [''Required'', ''Must be smaller than 18'']])
 \<and> (\<exists>v' r. MinMax vx ''age'' ObjNil 18 18 = Return (v', Some r) \<and> \<not> valid r \<and> HasErrors v'
      \<and> errors v' = Some [''age'' \<mapsto> [''Required'', ''Must be larger 18 and smaller 18'']])
 \<and> Min_v vx ''age'' (ObjTime (Time 5 0)) 18 = Return (vx, None)
 \<and> Max_v vx ''age'' (ObjTime (Time 5 0)) 18 = Return (vx, None)
 \<and> MinMax vx ''age'' (ObjTime (Time 5 0)) 18 18 = Return (vx, None)"
proof -
  have e: "errors vx = Some [''age'' \<mapsto> [''Required'']]"
    by (simp add: vx_def)
  have s: "showInt 18 = ''18''"
    by (simp add: showInt_small)
  from Min_Max_MinMax_nil_and_unsupported
    [of vx "[''age'' \<mapsto> [''Required'']]" "''age''" 18 18 "ObjTime (Time 5 0)"] e s
  show ?thesis
    by simp
qed

text \<open>
  Claim C10. With an allocated \<open>errors\<close> map, \<open>Required\<close> of a \<open>time.Time\<close> records a
  result that is valid if and only if the time is the zero time, so an error is recorded
  exactly for the times that are set. For the other supported types it is the other way
  round: an \<open>int\<close> is valid when it is not 0, a \<open>string\<close> and a slice when they are not
  empty.
\<close>

theorem Required_time_polarity:
  "errors v = Some m \<longrightarrow>
     (\<exists>v' r. Required v nm (ObjTime t) = Return (v', Some r)
        \<and> valid r = IsZero t \<and> HasErrors v' = (HasErrors v \<or> \<not> IsZero t))
   \<and> (\<exists>v' r. Required v nm (ObjInt i) = Return (v', Some r)
        \<and> valid r = (i \<noteq> 0) \<and> HasErrors v' = (HasErrors v \<or> i = 0))
   \<and> (\<exists>v' r. Required v nm (ObjString s) = Return (v', Some r)
        \<and> valid r = (s \<noteq> []) \<and> HasErrors v' = (HasErrors v \<or> s = []))
   \<and> (\<exists>v' r. Required v nm (ObjSlice n) = Return (v', Some r)
        \<and> valid r = (n \<noteq> 0) \<and> HasErrors v' = (HasErrors v \<or> n = 0))"
proof
  assume e: "errors v = Some m"
  have k: "\<exists>v' r. found (addValidationResult v nm ok ''Required'') = Return (v', Some r)
        \<and> valid r = ok \<and> HasErrors v' = (HasErrors v \<or> \<not> ok)" for ok
    using e by (cases ok) (simp_all add: addValidationResult_invalid addValidationResult_valid found_def)
  show "(\<exists>v' r. Required v nm (ObjTime t) = Return (v', Some r)
        \<and> valid r = IsZero t \<and> HasErrors v' = (HasErrors v \<or> \<not> IsZero t))
   \<and> (\<exists>v' r. Required v nm (ObjInt i) = Return (v', Some r)
        \<and> valid r = (i \<noteq> 0) \<and> HasErrors v' = (HasErrors v \<or> i = 0))
   \<and> (\<exists>v' r. Required v nm (ObjString s) = Return (v', Some r)
        \<and> valid r = (s \<noteq> []) \<and> HasErrors v' = (HasErrors v \<or> s = []))
   \<and> (\<exists>v' r. Required v nm (ObjSlice n) = Return (v', Some r)
        \<and> valid r = (n \<noteq> 0) \<and> HasErrors v' = (HasErrors v \<or> n = 0))"
    using k [of "IsZero t"] k [of "i \<noteq> 0"] k [of "s \<noteq> []"] k [of "n \<noteq> 0"]
    by simp
qed

theorem Required_time_polarity_witness:
  "(\<exists>v' r. Required vx ''born'' (ObjTime (Time 0 0)) = Return (v', Some r)
      \<and> valid r \<and> \<not> HasErrors v')
 \<and> (\<exists>v' r. Required vx ''born'' (ObjTime (Time 63000000000 0)) = Return (v', Some r)
      \<and> \<not> valid r \<and> HasErrors v')
 \<and> (\<exists>v' r. Required vx ''born'' (ObjInt 0) = Return (v', Some r) \<and> \<not> valid r \<and> HasErrors v')
 \<and> (\<exists>v' r. Required vx ''born'' (ObjInt 7) = Return (v', Some r) \<and> valid r \<and> \<not> HasErrors v')"
proof -
  have e: "errors vx = Some [''age'' \<mapsto> [''Required'']]" and h: "\<not> HasErrors vx"
    by (simp_all add: vx_def)
  from Required_time_polarity [of vx "[''age'' \<mapsto> [''Required'']]" "''born'' " "Time 0 0" 0 "''x''" 1]
    Required_time_polarity [of vx "[''age'' \<mapsto> [''Required'']]" "''born'' "
      "Time 63000000000 0" 7 "''x''" 1] e h
  show ?thesis
    by simp
qed


section \<open>Properties of the file system and of the walk\<close>







lemma length_normPath [simp]: "length (normPath s) = length s"
  by (simp add: normPath_def replaceBackslash_def toLower_def)




text \<open>
  An error other than \<open>SkipDir\<close> and \<open>SkipAll\<close> that the function returns at any call
  ends the walk and is its result.
\<close>

lemma called_error:
  "called fn path k st p i x st' \<Longrightarrow>
     fn p i x st' = Return (st'', Some e) \<Longrightarrow> e \<noteq> SkipDir \<Longrightarrow>
     walk fn path k st = Return (st'', Some e)"
  "calledEntries fn path ks st p i x st' \<Longrightarrow>
     fn p i x st' = Return (st'', Some e) \<Longrightarrow> e \<noteq> SkipDir \<Longrightarrow>
     walkEntries fn path ks st = Return (st'', Some e)"
proof (induction rule: called_calledEntries.inducts)
  case (calledHere path k st)
  then show ?case by (cases k) simp_all
next
  case (calledBelow path n st st1 ks p i x st')
  then show ?case by simp
next
  case (calledFirst path k st p i x st' ks)
  then show ?case by simp
next
  case (calledLater path k st st1 r ks p i x st')
  then show ?case by auto
qed



section \<open>Properties of the callback of the walk\<close>



lemma loadTemplates_installs:
  "Walk (walkFn eng tm) (directory tm) root
       \<lparr>templates = None, staticTemplates = None, watched = [], fsys = root\<rparr> = Return (st, None) \<Longrightarrow>
     loadTemplates eng None tm root
       = Return (tm\<lparr>watcher := Some (watched st), tmplList := templates st\<rparr>, fsys st, None)"
  by (simp add: loadTemplates_def)


lemma walkFn_ignores_err: "walkFn eng tm p i x st = walkFn eng tm p i None st"
  by (simp add: walkFn_def)




section \<open>The examples, evaluated\<close>

lemmas path_defs = Join_def Clean_def cleanComponents_def components_def relPath_def hasPrefix_def

lemmas ex_defs = loadTemplates_def Walk_def tmA_def newTemplateManager_def normPath_def toLower_def
    toLowerChar_def replaceBackslash_def backslash_def registerHook_def rft_def TmBeforeParse_def
    TmBeforeRender_def walkFn_def hasSuffix_def fsA_def ReadFile_def path_defs
    loadStatic_def loadNormal_def getHooks_def litEngine_def MkdirAll_def Create_def WriteFile_def
    tmA1_def fsA1_def fsB_def tmB_def stA_def fsStale_def fsLocked_def tmLocked_def
    fsNav_def stNav_def fsTwo_def stTwo_def
    Let_def fieldsOf_def sigBeforeParse_def sigBeforeRender_def

lemma load_fsA: "loadTemplates litEngine None tmA fsA = Return (tmA1, fsA1, None)"
  by (simp add: ex_defs)

lemma load_fsA1: "loadTemplates litEngine None tmA1 fsA1 = Return (tmA1, fsA1, None)"
  by (simp add: ex_defs)


lemma load_fsB:
  "loadTemplates litEngine None tmA1 fsB = Return (tmB, fsB, Some (Error ''template: unexpected action''))"
  by (simp add: ex_defs)

lemma load_fsLocked: "loadTemplates litEngine None tmA1 fsLocked = Return (tmLocked, fsLocked, None)"
  by (simp add: ex_defs)

lemma load_missing_root:
  "loadTemplates litEngine None tmA1 (NoInfo ''views'' (Error ''no such file or directory'')) = Panic"
  by (simp add: ex_defs)




lemma directory_tmA1: "directory tmA1 = ''views''"
  by (simp add: ex_defs)

lemma tmplList_tmA1:
  "tmplList tmA1 = Some (False, [(''sub/page.html'', ''<p>sub</p>''), (''index.html'', ''<h1>index</h1>'')])"
  by (simp add: ex_defs)


lemma getTemplate_tmB: "getTemplate litEngine tmB ''Sub/Page.html'' = Some ''<p>sub</p>''"
  by (simp add: getTemplate_def tmB_def tmplList_tmA1 toLower_def toLowerChar_def litEngine_def)

section \<open>Properties of \<open>loadTemplates\<close>\<close>





text \<open>
  What holds of \<open>loadTemplates\<close> and its errors. When it returns an error, \<open>tmplList\<close> is
  what it was, so \<open>getTemplate\<close> answers as before. When it returns nil, \<open>tmplList\<close> is
  the group that the walk has built. An error other than \<open>SkipDir\<close> and \<open>SkipAll\<close> that
  the callback returns at any point of the walk ends the walk and is the error that
  \<open>loadTemplates\<close> returns; the callback returns the error of \<open>ReadFile\<close> and the error
  of the parser, for a normal and for a static template.
\<close>

lemma loadTemplates_error_tmplList:
  "loadTemplates eng nw tm root = Return (tm', fs', Some e) \<Longrightarrow>
     tmplList tm' = tmplList tm \<and> list tm' = list tm \<and> directory tm' = directory tm
     \<and> tmplFuncs tm' = tmplFuncs tm"
  by (auto simp: loadTemplates_def Let_def split: option.splits outcome.splits if_splits)

lemma loadTemplates_error_getTemplate:
  "loadTemplates eng nw tm root = Return (tm', fs', Some e) \<Longrightarrow>
     getTemplate eng tm' = getTemplate eng tm"
  using loadTemplates_error_tmplList [of eng nw tm root tm' fs' e]
  by (auto simp: getTemplate_def fun_eq_iff)

lemma loadTemplates_of_called_error:
  assumes c: "called (walkFn eng tm) (directory tm) root
                \<lparr>templates = None, staticTemplates = None, watched = [], fsys = root\<rparr> p i x st"
    and w: "walkFn eng tm p i x st = Return (st', Some e)"
    and e: "e \<noteq> SkipDir" "e \<noteq> SkipAll"
  shows "loadTemplates eng None tm root
           = Return (tm\<lparr>watcher := Some (watched st')\<rparr>, fsys st', Some e)"
  using called_error(1) [OF c w e(1)] e by (simp add: loadTemplates_def Walk_def)

lemma walkFn_read_error:
  "hasSuffix m ''.html'' \<Longrightarrow> ReadFile (directory tm) (fsys st) (normPath p) = Inl e \<Longrightarrow>
     walkFn eng tm p (Some (m, False)) x st = Return (st, Some e)"
  by (simp add: walkFn_def)

lemma walkFn_parse_error_normal:
  "hasSuffix m ''.html'' \<Longrightarrow> ReadFile (directory tm) (fsys st) (normPath p) = Inr fdata \<Longrightarrow>
   \<not> length (normPath p) < length (directory tm) + 1 \<Longrightarrow>
   \<not> hasPrefix (normPath p) (directory tm @ ''/static/'') \<Longrightarrow>
   fireBeforeParse (getHooks tm TmBeforeParse) (fieldsOf tm) (drop (length (directory tm) + 1) (normPath p)) fdata
     = Return fdata' \<Longrightarrow>
   (case templates st of
      None \<Rightarrow> NewParse eng (Some (tmplFuncs tm)) (drop (length (directory tm) + 1) (normPath p)) fdata'
    | Some g \<Rightarrow> AddParse eng g (drop (length (directory tm) + 1) (normPath p)) fdata') = Inl e \<Longrightarrow>
   walkFn eng tm p (Some (m, False)) x st = Return (st, Some e)"
  by (auto simp: walkFn_def loadNormal_def split: option.splits)

lemma walkFn_parse_error_static:
  "hasSuffix m ''.html'' \<Longrightarrow> ReadFile (directory tm) (fsys st) (normPath p) = Inr fdata \<Longrightarrow>
   \<not> length (normPath p) < length (directory tm) + 1 \<Longrightarrow>
   hasPrefix (normPath p) (directory tm @ ''/static/'') \<Longrightarrow>
   (case staticTemplates st of
      None \<Rightarrow> NewParse eng None (drop (length (directory tm) + 1) (normPath p)) fdata
    | Some g \<Rightarrow> AddParse eng g (drop (length (directory tm) + 1) (normPath p)) fdata) = Inl e \<Longrightarrow>
   walkFn eng tm p (Some (m, False)) x st = Return (st\<lparr>staticTemplates := None\<rparr>, Some e)"
  by (auto simp: walkFn_def loadStatic_def split: option.splits)

text \<open>
  The error of a listing is lost: the callback answers a directory that cannot be
  listed like one that can, and the walk goes on behind it.
\<close>

lemma walk_unreadable_directory:
  "\<not> hasPrefix n ''.'' \<Longrightarrow> n \<noteq> ''_static'' \<Longrightarrow>
     walk (walkFn eng tm) p (DirErr n e) st
       = Return (st\<lparr>watched := watched st @ [normPath p]\<rparr>, None)"
  by (simp add: walkFn_def)

lemma walk_no_FileInfo: "walk (walkFn eng tm) p (NoInfo n e) st = Panic"
  by (simp add: walkFn_def)

text \<open>
  Claim C2 does not hold of \<open>loadTemplates\<close>. The callback never reads the error that
  \<open>filepath.Walk\<close> hands it. When a directory cannot be listed the walk goes on,
  \<open>loadTemplates\<close> returns nil and installs the group built from the rest of the tree:
  on the example, the installed template \<open>sub/page.html\<close> is gone after a compilation
  that finds the directory \<open>sub\<close> unreadable. And when \<open>os.Lstat\<close> fails, here because
  the template directory itself is missing, the callback calls \<open>IsDir\<close> on a nil
  \<open>FileInfo\<close>: \<open>loadTemplates\<close> panics and returns no error.
\<close>

theorem loadTemplates_swallows_listing_error:
  "getTemplate litEngine tmA1 ''sub/page.html'' = Some ''<p>sub</p>''
 \<and> ReadFile ''views'' fsLocked ''views/sub/page.html'' = Inl (Error ''permission denied'')
 \<and> loadTemplates litEngine None tmA1 fsLocked = Return (tmLocked, fsLocked, None)
 \<and> getTemplate litEngine tmLocked ''sub/page.html'' = None
 \<and> loadTemplates litEngine None tmA1 (NoInfo ''views'' (Error ''no such file or directory''))
     = Panic"
proof -
  have "getTemplate litEngine tmA1 ''sub/page.html'' = Some ''<p>sub</p>''"
    by (simp add: getTemplate_def tmplList_tmA1 toLower_def toLowerChar_def litEngine_def)
  moreover have "ReadFile ''views'' fsLocked ''views/sub/page.html''
      = Inl (Error ''permission denied'')"
    by (simp add: ReadFile_def path_defs fsLocked_def)
  moreover have "getTemplate litEngine tmLocked ''sub/page.html'' = None"
    by (simp add: getTemplate_def tmLocked_def toLower_def toLowerChar_def litEngine_def)
  ultimately show ?thesis
    using load_fsLocked load_missing_root by simp
qed

section \<open>Properties of \<open>getTemplate\<close> and \<open>RenderTemplate\<close>\<close>

lemma toLowerChar_backslash: "toLowerChar c = backslash \<longleftrightarrow> c = backslash"
  by (auto simp: toLowerChar_def backslash_def split: if_splits)

lemma normPath_no_backslash: "backslash \<notin> set nm \<Longrightarrow> normPath nm = toLower nm"
  by (induction nm) (auto simp: normPath_def replaceBackslash_def toLower_def toLowerChar_backslash)

text \<open>
  Claim C3, as amended. \<open>getTemplate\<close> looks the lower-cased name up in the installed
  group; it does not replace backslashes. For a name without a backslash that is the
  template registered under the normalised name. The result is nil when no group is
  installed and when the group has no template of the lower-cased name.
\<close>

theorem getTemplate_lower_case_only:
  "getTemplate eng tm nm =
     (case tmplList tm of None \<Rightarrow> None | Some g \<Rightarrow> Lookup eng g (toLower nm))
 \<and> (backslash \<notin> set nm \<longrightarrow>
      getTemplate eng tm nm =
        (case tmplList tm of None \<Rightarrow> None | Some g \<Rightarrow> Lookup eng g (normPath nm)))
 \<and> (tmplList tm = None \<longrightarrow> getTemplate eng tm nm = None)
 \<and> (tmplList tm = Some g \<and> Lookup eng g (toLower nm) = None \<longrightarrow> getTemplate eng tm nm = None)"
  by (auto simp: getTemplate_def normPath_no_backslash split: option.splits)

theorem getTemplate_lower_case_only_witness:
  "getTemplate litEngine tmA1 ''Sub/Page.html'' = Some ''<p>sub</p>''
 \<and> getTemplate litEngine tmA ''index.html'' = None
 \<and> getTemplate litEngine tmA1 ''missing.html'' = None"
proof -
  let ?g = "(False, [(''sub/page.html'', ''<p>sub</p>''), (''index.html'', ''<h1>index</h1>'')])"
  note inst = getTemplate_lower_case_only
  note c2 = inst [THEN conjunct2, THEN conjunct1, rule_format]
  note c3 = inst [THEN conjunct2, THEN conjunct2, THEN conjunct1, rule_format]
  note c4 = inst [THEN conjunct2, THEN conjunct2, THEN conjunct2, rule_format]
  have "backslash \<notin> set ''Sub/Page.html''"
    by (simp add: backslash_def)
  from c2 [OF this, of litEngine tmA1]
  have a: "getTemplate litEngine tmA1 ''Sub/Page.html'' = Some ''<p>sub</p>''"
    by (simp add: tmplList_tmA1 normPath_def toLower_def toLowerChar_def replaceBackslash_def
        backslash_def litEngine_def)
  have "tmplList tmA = None"
    by (simp add: tmA_def newTemplateManager_def registerHook_def rft_def TmBeforeParse_def
        TmBeforeRender_def sigBeforeParse_def sigBeforeRender_def)
  note b = c3 [OF this, of litEngine "''index.html''"]
  have "tmplList tmA1 = Some ?g \<and> Lookup litEngine ?g (toLower ''missing.html'') = None"
    by (simp add: tmplList_tmA1 toLower_def toLowerChar_def litEngine_def)
  note c = c4 [OF this]
  from a b c show ?thesis by simp
qed

text \<open>
  The claim as it was stated fails for a name with a backslash: after a compilation of
  the example tree the template \<open>sub/page.html\<close> is registered under the normalised
  name, and \<open>getTemplate\<close> of \<open>Sub\Page.html\<close> is nil.
\<close>

theorem getTemplate_backslash_counterexample:
  "loadTemplates litEngine None tmA fsA = Return (tmA1, fsA1, None)
 \<and> tmplList tmA1
     = Some (False, [(''sub/page.html'', ''<p>sub</p>''), (''index.html'', ''<h1>index</h1>'')])
 \<and> normPath (''Sub'' @ [backslash] @ ''Page.html'') = ''sub/page.html''
 \<and> Lookup litEngine
       (False, [(''sub/page.html'', ''<p>sub</p>''), (''index.html'', ''<h1>index</h1>'')])
       ''sub/page.html'' = Some ''<p>sub</p>''
 \<and> getTemplate litEngine tmA1 (''Sub'' @ [backslash] @ ''Page.html'') = None"
proof -
  have n: "normPath (''Sub'' @ [backslash] @ ''Page.html'') = ''sub/page.html''"
    by (simp add: normPath_def toLower_def toLowerChar_def replaceBackslash_def backslash_def)
  have l: "Lookup litEngine
       (False, [(''sub/page.html'', ''<p>sub</p>''), (''index.html'', ''<h1>index</h1>'')])
       ''sub/page.html'' = Some ''<p>sub</p>''"
    by (simp add: litEngine_def)
  have g: "getTemplate litEngine tmA1 (''Sub'' @ [backslash] @ ''Page.html'') = None"
    by (simp add: getTemplate_def tmplList_tmA1 toLower_def toLowerChar_def backslash_def
        litEngine_def)
  from load_fsA tmplList_tmA1 n l g show ?thesis by simp
qed

text \<open>
  What holds of \<open>RenderTemplate\<close>. It returns the error \<open>can't find template\<close> with the
  lower-cased name when \<open>getTemplate\<close> finds nothing, and no error of that form when it
  finds a template. With a template found and every before-render handler a value of
  the function type of the hook, the handlers are applied in the order of \<open>getHooks\<close>,
  each to the request, the template manager, the template and the arguments left by the
  one before; the template is then executed on the resulting arguments; the output is
  what the execution wrote, and an error of the execution is returned as an error whose
  message is \<open>failed to render template. Reason: \<close> followed by the message of that
  error.
\<close>

lemma fireBeforeRender_map:
  "fireBeforeRender (map BeforeRenderFn fs) req tm tmpl args
     = Return (foldl (\<lambda>a f. f req tm tmpl a) args fs)"
  by (induction fs arbitrary: args) simp_all

lemma RenderTemplate_not_found:
  "getTemplate eng tm nm = None \<Longrightarrow>
     RenderTemplate eng tm req nm args =
       Return (tm, [], Some (Error (''can't find template '' @ sq @ toLower nm @ sq)))"
  by (simp add: RenderTemplate_def)

lemma RenderTemplate_found:
  "getTemplate eng tm nm = Some tmpl \<Longrightarrow>
     RenderTemplate eng tm req nm args
       \<noteq> Return (tm', out', Some (Error (''can't find template '' @ x)))"
  by (auto simp: RenderTemplate_def Let_def split: outcome.splits option.splits prod.splits)

lemma RenderTemplate_fires_and_executes:
  "getTemplate eng tm nm = Some tmpl \<Longrightarrow>
   getHooks tm TmBeforeRender = map BeforeRenderFn fs \<Longrightarrow>
   Execute eng tmpl (Some (foldl (\<lambda>a f. f req (fieldsOf tm) tmpl a) args fs)) = (out, err) \<Longrightarrow>
     RenderTemplate eng tm req nm args =
       Return (tm\<lparr>tmplList := map_option (\<lambda>g. Executed eng g tmpl) (tmplList tm)\<rparr>, out,
               map_option (\<lambda>e. Error (''failed to render template. Reason: '' @ errorString e)) err)"
  by (cases err) (auto simp: RenderTemplate_def fireBeforeRender_map)

lemma RenderTemplate_panics:
  "getTemplate eng tm nm = Some tmpl \<Longrightarrow>
   getHooks tm TmBeforeRender = map BeforeRenderFn fs @ h # hs \<Longrightarrow>
   (\<forall>f. h \<noteq> BeforeRenderFn f) \<Longrightarrow>
     RenderTemplate eng tm req nm args = Panic"
proof -
  have "(\<forall>f. h \<noteq> BeforeRenderFn f) \<Longrightarrow>
      fireBeforeRender (map BeforeRenderFn fs @ h # hs) req tm' tmpl args = Panic" for tm' args
    by (induction fs arbitrary: args) (cases h; simp)+
  then show "getTemplate eng tm nm = Some tmpl \<Longrightarrow>
      getHooks tm TmBeforeRender = map BeforeRenderFn fs @ h # hs \<Longrightarrow>
      (\<forall>f. h \<noteq> BeforeRenderFn f) \<Longrightarrow> ?thesis"
    by (simp add: RenderTemplate_def)
qed

lemma render_tmH:
  "RenderTemplate echoEngine tmH ''/req'' ''Index.html'' [(''n'', ''1'')]
     = Return (tmH\<lparr>tmplList := Some (True, [(''sub/page.html'', ''<p>sub</p>''),
                                              (''index.html'', ''<h1>index</h1>'')])\<rparr>,
               ''<h1>index</h1>1xy'', None)"
  by (simp add: RenderTemplate_def getTemplate_def tmH_def AddHook_def getHooks_def tmA1_def
      tmA_def newTemplateManager_def registerHook_def rft_def TmBeforeParse_def TmBeforeRender_def
      sigBeforeParse_def sigBeforeRender_def toLower_def toLowerChar_def echoEngine_def
      litEngine_def addUser_def addLang_def fieldsOf_def)

lemma render_fail:
  "RenderTemplate failEngine tmA1 ''/req'' ''index.html'' []
     = Return (tmA1\<lparr>tmplList := Some (True, [(''sub/page.html'', ''<p>sub</p>''),
                                               (''index.html'', ''<h1>index</h1>'')])\<rparr>,
               ''<h'', Some (Error ''failed to render template. Reason: nil pointer evaluating''))"
  by (simp add: RenderTemplate_def getTemplate_def getHooks_def tmA1_def tmA_def
      newTemplateManager_def registerHook_def rft_def TmBeforeParse_def TmBeforeRender_def
      sigBeforeParse_def sigBeforeRender_def toLower_def toLowerChar_def failEngine_def
      litEngine_def)

text \<open>
  Claim C5 does not hold of \<open>RenderTemplate\<close>. \<open>AddHook\<close> admits every handler whose type
  is assignable to the signature of the hook, and the loop of \<open>RenderTemplate\<close> asserts
  the function type itself. A handler of a defined type whose underlying type is that
  function type is assignable: \<open>AddHook\<close> attaches it and returns nil, and
  \<open>RenderTemplate\<close> of a template that exists then panics in the type assertion. No
  handler is fired, the template is not executed and no error is returned.
\<close>

theorem RenderTemplate_panics_on_attached_handler:
  "AddHook rft tmA1 TmBeforeRender (OtherValue ''main.RenderHook'') = Return (tmN, None)
 \<and> getHooks tmN TmBeforeRender = [OtherValue ''main.RenderHook'']
 \<and> getTemplate litEngine tmN ''index.html'' = Some ''<h1>index</h1>''
 \<and> RenderTemplate litEngine tmN ''/req'' ''index.html'' [] = Panic"
proof -
  have a: "AddHook rft tmA1 TmBeforeRender (OtherValue ''main.RenderHook'') = Return (tmN, None)"
    by (simp add: AddHook_def tmN_def tmA1_def tmA_def newTemplateManager_def registerHook_def
        rft_def TmBeforeParse_def TmBeforeRender_def sigBeforeParse_def sigBeforeRender_def)
  have h: "getHooks tmN TmBeforeRender = [OtherValue ''main.RenderHook'']"
    by (simp add: getHooks_def tmN_def)
  have g: "getTemplate litEngine tmN ''index.html'' = Some ''<h1>index</h1>''"
    by (simp add: getTemplate_def tmN_def tmplList_tmA1 toLower_def toLowerChar_def litEngine_def)
  have r: "RenderTemplate litEngine tmN ''/req'' ''index.html'' [] = Panic"
    by (simp add: RenderTemplate_def g h)
  from a h g r show ?thesis by simp
qed

end
